theory Spec2Isabelle
  imports Complex_Main "HOL-Library.Sublist" "HOL-Library.Multiset"
begin

section \<open>Python strings\<close>

text \<open>
  A Python \<open>str\<close> is a sequence of code points. It is modelled as a \<open>string\<close> whose
  characters are the code points below 256 (ASCII and the Latin-1 supplement); on that
  range the behaviour of \<open>str.isspace\<close>, \<open>str.lower\<close>, \<open>str.isdigit\<close> and \<open>int\<close> is
  written out below. Code points from 256 on are outside the model.
\<close>

definition isspace :: "char \<Rightarrow> bool" where
  \<comment> \<open>U+0009..U+000D, U+001C..U+0020, U+0085, U+00A0\<close>
  "isspace c = (let n = (of_char c :: nat)
                in (9 \<le> n \<and> n \<le> 13) \<or> (28 \<le> n \<and> n \<le> 32) \<or> n = 133 \<or> n = 160)"

definition lower_char :: "char \<Rightarrow> char" where
  \<comment> \<open>A..Z, and U+00C0..U+00DE without the multiplication sign U+00D7\<close>
  "lower_char c = (let n = (of_char c :: nat)
                   in if (65 \<le> n \<and> n \<le> 90) \<or> (192 \<le> n \<and> n \<le> 222 \<and> n \<noteq> 215)
                      then char_of (n + 32) else c)"

definition lower :: "string \<Rightarrow> string" where
  "lower s = map lower_char s"

definition strip :: "string \<Rightarrow> string" where
  "strip s = rev (dropWhile isspace (rev (dropWhile isspace s)))"

text \<open>\<^verbatim>\<open>def normalize(text): return text.strip().lower()\<close>\<close>

definition normalize_text :: "string \<Rightarrow> string" where
  "normalize_text text = lower (strip text)"

text \<open>\<open>str(n)\<close> for a non-negative integer, as an f-string formats it.\<close>

function str_nat :: "nat \<Rightarrow> string" where
  "str_nat n = (if n < 10 then [char_of (48 + n)]
                else str_nat (n div 10) @ [char_of (48 + n mod 10)])"
  by pat_completeness auto
termination
  by (relation "measure (\<lambda>n. n)") auto

declare str_nat.simps [simp del]

section \<open>Records, filters and weights\<close>

text \<open>
  An intervention is a dictionary read with \<open>it.get(key)\<close> and \<open>it.get(key, [])\<close>. Each
  key read by the ranking is a field of option type, \<open>None\<close> standing for an absent key
  (for the keys whose schema type is \<open>Optional\<close>, also for a null value, which
  \<open>it.get(key)\<close> does not tell apart). The values have the types of the schema
  \<open>InterventionIn\<close>. The display-only keys that the ranking never reads are left out.
\<close>

record reference =
  source :: "string option"
  title :: "string option"
  url :: "string option"
  excerpt :: "string option"

record intervention =
  i_id :: string
  i_name :: string
  i_road_types :: "string list option"
  i_issues :: "string list option"
  i_environments :: "string list option"
  i_suitable_speed_range :: "int list option"
  i_urban_rural :: "string list option"
  i_references :: "reference list option"

text \<open>The keyword arguments of \<open>rank_interventions\<close>, also the keys of the filter dictionary.\<close>

record filters =
  road_type :: "string option"
  issues :: "string list"
  environments :: "string list"
  speed_kmh :: "int option"
  urban_rural :: "string option"

text \<open>\<open>{**it, "_score": ..., "_reasons": ...}\<close>\<close>

record ranked = intervention +
  r_score :: rat
  r_reasons :: "string list"

datatype factor = Issues | RoadTypes | Environments | Speed | UrbanRural

text \<open>
  Scores are Python floats in the source. They are modelled as exact rationals: the
  rounding error of each floating-point operation is not part of the model, so a rounded
  score of the model can differ from the code's in the fourth decimal, and two records
  that tie in the model can be a near-tie in the code.
\<close>

fun WEIGHTS :: "factor \<Rightarrow> rat" where
  "WEIGHTS Issues = 45 / 100"
| "WEIGHTS RoadTypes = 25 / 100"
| "WEIGHTS Environments = 2 / 10"
| "WEIGHTS Speed = 5 / 100"
| "WEIGHTS UrbanRural = 5 / 100"

text \<open>\<open>it.get(key, [])\<close>\<close>

definition get_list :: "'a list option \<Rightarrow> 'a list" where
  "get_list v = (case v of None \<Rightarrow> [] | Some xs \<Rightarrow> xs)"

definition list_overlap :: "string list \<Rightarrow> string list \<Rightarrow> nat" where
  "list_overlap a b = (let sa = normalize_text ` set a; sb = normalize_text ` set b
                       in card (sa \<inter> sb))"

definition speed_in_range :: "int option \<Rightarrow> int list option \<Rightarrow> bool" where
  "speed_in_range spd rng =
     (case spd of None \<Rightarrow> False
      | Some v \<Rightarrow> (case rng of None \<Rightarrow> False
                  | Some r \<Rightarrow> if r = [] \<or> length r \<noteq> 2 then False
                             else r ! 0 \<le> v \<and> v \<le> r ! 1))"

section \<open>The ranking\<close>

text \<open>
  The loop body of \<open>rank_interventions\<close> is five blocks in sequence, each of which may add
  to \<open>score\<close> and append to \<open>reasons\<close>. Each block is a function on that pair.
\<close>

type_synonym acc = "rat \<times> string list"

definition distinct_count :: "string list \<Rightarrow> nat" where
  \<comment> \<open>\<open>len(set(map(normalize, xs)))\<close>\<close>
  "distinct_count xs = card (set (map normalize_text xs))"

definition issues_block :: "filters \<Rightarrow> intervention \<Rightarrow> acc \<Rightarrow> acc" where
  "issues_block f it a =
     (case a of (score, reasons) \<Rightarrow>
        if issues f \<noteq> [] then
          (let overlap = list_overlap (issues f) (get_list (i_issues it))
           in if length (issues f) > 0 then
                (let s = WEIGHTS Issues * (of_nat overlap / of_nat (distinct_count (issues f)))
                 in (score + s,
                     if overlap \<noteq> 0
                     then reasons @ [''Matches issues: '' @ str_nat overlap @ ''/''
                                      @ str_nat (distinct_count (issues f))]
                     else reasons))
              else (score, reasons))
        else (score, reasons))"

definition road_type_block :: "filters \<Rightarrow> intervention \<Rightarrow> acc \<Rightarrow> acc" where
  "road_type_block f it a =
     (case a of (score, reasons) \<Rightarrow>
        (case road_type f of
           None \<Rightarrow> (score, reasons)
         | Some rt \<Rightarrow>
             if rt \<noteq> [] then
               (let overlap = list_overlap [rt] (get_list (i_road_types it))
                in if overlap \<noteq> 0
                   then (score + WEIGHTS RoadTypes,
                         reasons @ [''Applicable to specified road type''])
                   else (score, reasons))
             else (score, reasons)))"

definition environments_block :: "filters \<Rightarrow> intervention \<Rightarrow> acc \<Rightarrow> acc" where
  "environments_block f it a =
     (case a of (score, reasons) \<Rightarrow>
        if environments f \<noteq> [] then
          (let overlap = list_overlap (environments f) (get_list (i_environments it))
           in if length (environments f) > 0 then
                (let s = WEIGHTS Environments
                           * (of_nat overlap / of_nat (distinct_count (environments f)))
                 in (score + s,
                     if overlap \<noteq> 0
                     then reasons @ [''Suitable for the described environment'']
                     else reasons))
              else (score, reasons))
        else (score, reasons))"

definition truthy_list :: "'a list option \<Rightarrow> bool" where
  \<comment> \<open>the truth value of \<open>it.get(key)\<close>: false for an absent key, null and the empty list\<close>
  "truthy_list v = (case v of None \<Rightarrow> False | Some xs \<Rightarrow> xs \<noteq> [])"

definition speed_block :: "filters \<Rightarrow> intervention \<Rightarrow> acc \<Rightarrow> acc" where
  "speed_block f it a =
     (case a of (score, reasons) \<Rightarrow>
        if speed_kmh f \<noteq> None \<and> truthy_list (i_suitable_speed_range it) then
          (if speed_in_range (speed_kmh f) (i_suitable_speed_range it)
           then (score + WEIGHTS Speed, reasons @ [''Effective within given speed range''])
           else (score, reasons))
        else (score, reasons))"

definition urban_rural_block :: "filters \<Rightarrow> intervention \<Rightarrow> acc \<Rightarrow> acc" where
  "urban_rural_block f it a =
     (case a of (score, reasons) \<Rightarrow>
        (case urban_rural f of
           None \<Rightarrow> (score, reasons)
         | Some ur \<Rightarrow>
             if ur \<noteq> [] \<and> truthy_list (i_urban_rural it) then
               (if normalize_text ur \<in> set (map normalize_text (get_list (i_urban_rural it)))
                then (score + WEIGHTS UrbanRural,
                      reasons @ [''Designed for the specified context (urban/rural)''])
                else (score, reasons))
             else (score, reasons)))"

definition score_item :: "filters \<Rightarrow> intervention \<Rightarrow> acc" where
  "score_item f it =
     urban_rural_block f it (speed_block f it (environments_block f it
       (road_type_block f it (issues_block f it (0, [])))))"

text \<open>
  \<open>round(score, 4)\<close>: the nearest multiple of \<open>1/10000\<close>, a tie going to the even
  multiple.
\<close>

definition py_round :: "rat \<Rightarrow> nat \<Rightarrow> rat" where
  "py_round x ndigits =
     (let m = 10 ^ ndigits; y = x * m; fl = \<lfloor>y\<rfloor>; d = y - of_int fl
      in of_int (if d < 1 / 2 then fl
                 else if 1 / 2 < d then fl + 1
                 else if even fl then fl else fl + 1) / m)"

definition rank_one :: "filters \<Rightarrow> intervention \<Rightarrow> ranked" where
  "rank_one f it =
     (case score_item f it of (score, reasons) \<Rightarrow>
        intervention.extend it (ranked.fields (py_round score 4) reasons))"

text \<open>
  \<open>xs.sort(key=k, reverse=True)\<close>: Python's sort is stable, and with \<open>reverse=True\<close> it
  still keeps elements with equal keys in their original order; CPython reverses the
  list, sorts it stably in ascending order and reverses it again.
\<close>

definition sort_reverse :: "('a \<Rightarrow> 'k::linorder) \<Rightarrow> 'a list \<Rightarrow> 'a list" where
  "sort_reverse k xs = rev (sort_key k (rev xs))"

definition rank_interventions :: "intervention list \<Rightarrow> filters \<Rightarrow> ranked list" where
  "rank_interventions interventions f = sort_reverse r_score (map (rank_one f) interventions)"

section \<open>The free-text parser\<close>

definition KNOWN_ROAD_TYPES :: "string list" where
  "KNOWN_ROAD_TYPES =
     [''urban arterial'', ''urban collector'', ''local street'', ''rural highway'',
      ''rural arterial'', ''expressway'', ''village road'', ''residential street'',
      ''state highway'', ''national highway'']"

definition KNOWN_ISSUES :: "string list" where
  "KNOWN_ISSUES =
     [''speeding'', ''pedestrian crashes'', ''rear-end crashes'', ''run-off-road'', ''head-on'',
      ''intersection conflicts'', ''nighttime visibility'', ''overtaking'', ''wrong-way'',
      ''work zone safety'', ''bicyclist safety'', ''school zone safety'']"

definition KNOWN_ENVIRONMENTS :: "string list" where
  "KNOWN_ENVIRONMENTS =
     [''school zone'', ''market area'', ''mixed land use'', ''curve'', ''intersection'',
      ''midblock'', ''work zone'', ''bridge'', ''tunnel'', ''bus stop'', ''railway crossing'']"

datatype error = ValueError | HTTPException nat string

text \<open>
  \<open>s.replace(old, new)\<close>: the occurrences of \<open>old\<close> are replaced from left to right,
  without overlap. (With an empty \<open>old\<close>, Python puts \<open>new\<close> around every character.)
\<close>

function str_replace :: "string \<Rightarrow> string \<Rightarrow> string \<Rightarrow> string" where
  "str_replace old new s =
     (if old = [] then new @ concat (map (\<lambda>c. c # new) s)
      else if s = [] then []
      else if prefix old s then new @ str_replace old new (drop (length old) s)
      else hd s # str_replace old new (tl s))"
  by pat_completeness auto
termination
  by (relation "measure (\<lambda>(old, new, s). length s)") auto

declare str_replace.simps [simp del]

text \<open>\<open>s.split()\<close>: the maximal runs of characters that are not whitespace.\<close>

function split_ws :: "string \<Rightarrow> string list" where
  "split_ws s =
     (case dropWhile isspace s of
        [] \<Rightarrow> []
      | c # cs \<Rightarrow> (c # takeWhile (\<lambda>x. \<not> isspace x) cs)
                   # split_ws (dropWhile (\<lambda>x. \<not> isspace x) cs))"
  by pat_completeness auto
termination
proof (relation "measure length")
  show "wf (measure length)"
    by simp
next
  fix s :: string and c cs
  assume a: "dropWhile isspace s = c # cs"
  have "length (dropWhile (\<lambda>x. \<not> isspace x) cs) \<le> length cs"
    by (rule length_dropWhile_le)
  also have "length cs < length (dropWhile isspace s)"
    by (simp add: a)
  also have "\<dots> \<le> length s"
    by (rule length_dropWhile_le)
  finally show "(dropWhile (\<lambda>x. \<not> isspace x) cs, s) \<in> measure length"
    by simp
qed

declare split_ws.simps [simp del]

definition isdecimal_char :: "char \<Rightarrow> bool" where
  \<comment> \<open>the digits 0..9\<close>
  "isdecimal_char c = (let n = (of_char c :: nat) in 48 \<le> n \<and> n \<le> 57)"

definition isdigit_char :: "char \<Rightarrow> bool" where
  \<comment> \<open>the digits 0..9 and the superscripts U+00B2, U+00B3, U+00B9\<close>
  "isdigit_char c = (let n = (of_char c :: nat)
                     in (48 \<le> n \<and> n \<le> 57) \<or> n = 178 \<or> n = 179 \<or> n = 185)"

definition isdigit :: "string \<Rightarrow> bool" where
  "isdigit token = (token \<noteq> [] \<and> list_all isdigit_char token)"

definition decimal_value :: "string \<Rightarrow> int" where
  "decimal_value token = foldl (\<lambda>a c. 10 * a + (int (of_char c) - 48)) 0 token"

text \<open>
  \<open>int(token)\<close> on a token that has no whitespace, sign or underscore: the value of a
  non-empty string of the digits 0..9, and \<open>ValueError\<close> for anything else (a superscript
  digit is not a decimal digit). The interpreter's limit on the number of digits is not
  modelled.
\<close>

definition int_of_token :: "string \<Rightarrow> error + int" where
  "int_of_token token =
     (if token \<noteq> [] \<and> list_all isdecimal_char token then Inr (decimal_value token)
      else Inl ValueError)"

text \<open>The loop over the tokens; \<open>break\<close> at the first number in range.\<close>

fun scan_speed :: "string list \<Rightarrow> error + int option" where
  "scan_speed [] = Inr None"
| "scan_speed (token # rest) =
     (if isdigit token then
        (case int_of_token token of
           Inl e \<Rightarrow> Inl e
         | Inr n \<Rightarrow> if 10 \<le> n \<and> n \<le> 130 then Inr (Some n) else scan_speed rest)
      else scan_speed rest)"

text \<open>\<open>a in b\<close> on strings is \<open>sublist a b\<close>: \<open>a\<close> occurs in \<open>b\<close> as a contiguous block.\<close>

definition parse_free_text :: "string \<Rightarrow> error + filters" where
  "parse_free_text prompt =
     (let p = normalize_text prompt;
          rt = find (\<lambda>rt. sublist rt p) KNOWN_ROAD_TYPES;
          ur = (if sublist ''urban'' p then Some ''urban''
                else if sublist ''rural'' p then Some ''rural'' else None);
          iss = filter (\<lambda>kw. sublist kw p) KNOWN_ISSUES;
          envs = filter (\<lambda>kw. sublist kw p) KNOWN_ENVIRONMENTS
      in case scan_speed (split_ws (str_replace ''km/h'' ''kmh'' p)) of
           Inl e \<Rightarrow> Inl e
         | Inr sp \<Rightarrow> Inr \<lparr>road_type = rt, issues = iss, environments = envs,
                          speed_kmh = sp, urban_rural = ur\<rparr>)"

section \<open>The recommendation endpoint\<close>

record recommendation_request = filters +
  prompt :: "string option"
  top_k :: int

datatype fkey = K_road_type | K_issues | K_environments | K_speed_kmh | K_urban_rural

text \<open>The keys of the dictionary \<open>parse_free_text\<close> returns, in its order.\<close>

definition parsed_keys :: "fkey list" where
  "parsed_keys = [K_road_type, K_issues, K_environments, K_speed_kmh, K_urban_rural]"

text \<open>\<open>not filters[k]\<close>\<close>

fun falsy :: "filters \<Rightarrow> fkey \<Rightarrow> bool" where
  "falsy f K_road_type = (road_type f = None \<or> road_type f = Some [])"
| "falsy f K_issues = (issues f = [])"
| "falsy f K_environments = (environments f = [])"
| "falsy f K_speed_kmh = (speed_kmh f = None \<or> speed_kmh f = Some 0)"
| "falsy f K_urban_rural = (urban_rural f = None \<or> urban_rural f = Some [])"

text \<open>\<open>filters[k] is None\<close>\<close>

fun is_None :: "filters \<Rightarrow> fkey \<Rightarrow> bool" where
  "is_None f K_road_type = (road_type f = None)"
| "is_None f K_issues = False"
| "is_None f K_environments = False"
| "is_None f K_speed_kmh = (speed_kmh f = None)"
| "is_None f K_urban_rural = (urban_rural f = None)"

text \<open>\<open>filters[k] = v\<close>, where \<open>v\<close> is \<open>parsed[k]\<close>\<close>

fun assign :: "filters \<Rightarrow> fkey \<Rightarrow> filters \<Rightarrow> filters" where
  "assign parsed K_road_type f = f\<lparr>road_type := road_type parsed\<rparr>"
| "assign parsed K_issues f = f\<lparr>issues := issues parsed\<rparr>"
| "assign parsed K_environments f = f\<lparr>environments := environments parsed\<rparr>"
| "assign parsed K_speed_kmh f = f\<lparr>speed_kmh := speed_kmh parsed\<rparr>"
| "assign parsed K_urban_rural f = f\<lparr>urban_rural := urban_rural parsed\<rparr>"

definition merge_step :: "filters \<Rightarrow> fkey \<Rightarrow> filters \<Rightarrow> filters" where
  "merge_step parsed k f =
     (if (k \<in> {K_issues, K_environments} \<and> falsy f k)
         \<or> (k \<notin> {K_issues, K_environments} \<and> is_None f k)
      then assign parsed k f else f)"

definition merge_parsed :: "filters \<Rightarrow> filters \<Rightarrow> filters" where
  "merge_parsed parsed f = fold (merge_step parsed) parsed_keys f"

definition merged_filters :: "recommendation_request \<Rightarrow> error + filters" where
  "merged_filters req =
     (let f = filters.truncate req
      in case prompt req of
           None \<Rightarrow> Inr f
         | Some p \<Rightarrow>
             if p = [] then Inr f
             else (case parse_free_text p of
                     Inl e \<Rightarrow> Inl e
                   | Inr parsed \<Rightarrow> Inr (merge_parsed parsed f)))"

record ref_note =
  n_source :: string
  n_title :: string
  n_url :: "string option"
  n_excerpt :: "string option"

definition ref_note_of :: "reference \<Rightarrow> ref_note" where
  "ref_note_of r =
     \<lparr>n_source = (case source r of None \<Rightarrow> [] | Some s \<Rightarrow> s),
      n_title = (case title r of None \<Rightarrow> [] | Some t \<Rightarrow> t),
      n_url = (case url r of None \<Rightarrow> None | Some u \<Rightarrow> if u = [] then None else Some u),
      n_excerpt = excerpt r\<rparr>"

text \<open>
  An item of the response. The keys \<open>description\<close>, \<open>applicability\<close>, \<open>constraints\<close> and
  \<open>co_benefits\<close>, which copy fields of the record, are left out.
\<close>

record result_item =
  res_id :: string
  res_name :: string
  res_score :: rat
  res_reasons :: "string list"
  res_references :: "ref_note list"

definition result_of :: "ranked \<Rightarrow> result_item" where
  "result_of it =
     (let refs = get_list (i_references it)
      in \<lparr>res_id = i_id it, res_name = i_name it, res_score = r_score it,
          res_reasons = r_reasons it, res_references = map ref_note_of (take 3 refs)\<rparr>)"

record response =
  filters_used :: filters
  count_items :: nat
  items :: "result_item list"

text \<open>
  The database is a parameter: \<open>None\<close> when it is not configured, otherwise the documents
  of the collection as \<open>get_documents\<close> returns them, \<open>i_id\<close> being \<open>str(_id)\<close>.
\<close>

definition recommend :: "intervention list option \<Rightarrow> recommendation_request \<Rightarrow> error + response"
  where
  "recommend db req =
     (case db of
        None \<Rightarrow> Inl (HTTPException 500 ''Database not configured'')
      | Some docs \<Rightarrow>
          (case merged_filters req of
             Inl e \<Rightarrow> Inl e
           | Inr f \<Rightarrow>
               (let ranked = rank_interventions docs f;
                    top = take (nat (max 1 (min (top_k req) 50))) ranked;
                    results = map result_of top
                in Inr \<lparr>filters_used = f, count_items = length results, items = results\<rparr>)))"

section \<open>The seed records\<close>

definition Reference :: "string \<Rightarrow> string \<Rightarrow> string option \<Rightarrow> reference" where
  "Reference s t u = \<lparr>source = Some s, title = Some t, url = u, excerpt = None\<rparr>"

definition seed_raised_crossing :: intervention where
  "seed_raised_crossing =
     \<lparr>i_id = ''1'', i_name = ''Raised Pedestrian Crossing'',
      i_road_types = Some [''urban arterial'', ''urban collector'', ''local street''],
      i_issues = Some [''speeding'', ''pedestrian crashes''],
      i_environments = Some [''school zone'', ''market area'', ''midblock''],
      i_suitable_speed_range = Some [20, 50],
      i_urban_rural = Some [''urban''],
      i_references = Some
        [Reference ''WHO'' ''Pedestrian safety: a road safety manual''
           (Some ''https://www.who.int/publications/i/item/pedestrian-safety-a-road-safety-manual''),
         Reference ''FHWA'' ''Safety Effects of Marked vs. Unmarked Crosswalks''
           (Some ''https://safety.fhwa.dot.gov/'')]\<rparr>"

definition seed_rumble_strips :: intervention where
  "seed_rumble_strips =
     \<lparr>i_id = ''2'', i_name = ''Rumble Strips (Shoulder/Centerline)'',
      i_road_types = Some [''rural highway'', ''rural arterial'', ''state highway'',
                            ''national highway''],
      i_issues = Some [''run-off-road'', ''head-on''],
      i_environments = Some [''curve'', ''midblock''],
      i_suitable_speed_range = Some [50, 110],
      i_urban_rural = Some [''rural''],
      i_references = Some
        [Reference ''FHWA'' ''Rumble Strips and Rumble Stripes''
           (Some ''https://safety.fhwa.dot.gov/''),
         Reference ''PIARC'' ''Road Safety Manual'' None]\<rparr>"

definition seed_roundabout :: intervention where
  "seed_roundabout =
     \<lparr>i_id = ''3'', i_name = ''Roundabout Conversion'',
      i_road_types = Some [''urban arterial'', ''rural arterial'', ''local street''],
      i_issues = Some [''intersection conflicts'', ''head-on''],
      i_environments = Some [''intersection''],
      i_suitable_speed_range = Some [20, 60],
      i_urban_rural = Some [''urban'', ''rural''],
      i_references = Some
        [Reference ''FHWA'' ''Roundabouts: An Informational Guide'' None,
         Reference ''IRC'' ''Guidelines for Traffic Management in Urban Areas'' None]\<rparr>"

definition SEED_DATA :: "intervention list" where
  "SEED_DATA = [seed_raised_crossing, seed_rumble_strips, seed_roundabout]"

section \<open>What each block adds\<close>

text \<open>
  What a block adds to the score, and what it appends to the reasons, read off by running
  it on the empty accumulator.
\<close>

definition contribution ::
  "(filters \<Rightarrow> intervention \<Rightarrow> acc \<Rightarrow> acc) \<Rightarrow> filters \<Rightarrow> intervention \<Rightarrow> rat" where
  "contribution blk f it = fst (blk f it (0, []))"

definition appended ::
  "(filters \<Rightarrow> intervention \<Rightarrow> acc \<Rightarrow> acc) \<Rightarrow> filters \<Rightarrow> intervention \<Rightarrow> string list" where
  "appended blk f it = snd (blk f it (0, []))"

definition only_issues :: "string list \<Rightarrow> filters" where
  "only_issues xs =
     \<lparr>road_type = None, issues = xs, environments = [], speed_kmh = None, urban_rural = None\<rparr>"

definition full_match_filter :: filters where
  "full_match_filter =
     \<lparr>road_type = Some ''Local Street'', issues = [''speeding'', ''pedestrian crashes''],
      environments = [''school zone''], speed_kmh = Some 40, urban_rural = Some ''urban''\<rparr>"

section \<open>The specification's wording, and example inputs\<close>

text \<open>
  Labels as the specification compares them, "case-insensitive, trimmed", stated without
  \<open>normalize_text\<close>. \<open>letter_pair u l\<close>: \<open>u\<close> is an upper-case letter and \<open>l\<close> its lower-case
  form. \<open>trimmed_of x t\<close>: \<open>t\<close> is \<open>x\<close> without its leading and trailing whitespace. Two
  labels are the same label when their trimmed forms have the same length and agree
  character by character up to case.
\<close>

definition letter_pair :: "char \<Rightarrow> char \<Rightarrow> bool" where
  "letter_pair u l =
     (let n = (of_char u :: nat)
      in ((65 \<le> n \<and> n \<le> 90) \<or> (192 \<le> n \<and> n \<le> 222 \<and> n \<noteq> 215))
         \<and> (of_char l :: nat) = n + 32)"

definition same_char :: "char \<Rightarrow> char \<Rightarrow> bool" where
  "same_char c d = (c = d \<or> letter_pair c d \<or> letter_pair d c)"

definition trimmed_of :: "string \<Rightarrow> string \<Rightarrow> bool" where
  "trimmed_of x t =
     (\<exists>u v. x = u @ t @ v \<and> list_all isspace u \<and> list_all isspace v
            \<and> (t = [] \<or> (\<not> isspace (hd t) \<and> \<not> isspace (last t))))"

definition same_label :: "string \<Rightarrow> string \<Rightarrow> bool" where
  "same_label x y = (\<exists>s t. trimmed_of x s \<and> trimmed_of y t \<and> list_all2 same_char s t)"

text \<open>
  The labels of \<open>a\<close> that are also, as labels, in \<open>b\<close>; and the number of distinct labels
  in a set, labels that are the same label counting once.
\<close>

definition common_labels :: "string list \<Rightarrow> string list \<Rightarrow> string set" where
  "common_labels a b = {x \<in> set a. \<exists>y \<in> set b. same_label x y}"

definition distinct_labels :: "string set \<Rightarrow> nat" where
  "distinct_labels A = card (A // {(x, y). same_label x y})"

definition mixed_case_issues :: "string list" where
  "mixed_case_issues = ['' Speeding'', ''PEDESTRIAN crashes  '', ''speeding'', ''Overtaking'']"

text \<open>
  The merge as the specification words it, for comparison with \<open>merge_parsed\<close>: a supplied
  single-valued field counts as explicit when it is neither null nor empty, a supplied
  list when it is not empty; an explicit field is kept, any other is replaced by the
  parsed one. (A number has no empty value: a supplied speed is explicit when it is not
  null.)
\<close>

definition merge_as_claimed :: "filters \<Rightarrow> filters \<Rightarrow> filters" where
  "merge_as_claimed parsed f =
     \<lparr>road_type = (if road_type f \<noteq> None \<and> road_type f \<noteq> Some [] then road_type f
                   else road_type parsed),
      issues = (if issues f \<noteq> [] then issues f else issues parsed),
      environments = (if environments f \<noteq> [] then environments f else environments parsed),
      speed_kmh = (if speed_kmh f \<noteq> None then speed_kmh f else speed_kmh parsed),
      urban_rural = (if urban_rural f \<noteq> None \<and> urban_rural f \<noteq> Some [] then urban_rural f
                     else urban_rural parsed)\<rparr>"

text \<open>
  The speed as the specification words it: the first token, after the replacement of
  \<open>km/h\<close> and the split on whitespace, that is a pure base-10 integer with a value from
  10 to 130; undefined if there is none.
\<close>

definition is_decimal_integer :: "string \<Rightarrow> bool" where
  "is_decimal_integer token = (token \<noteq> [] \<and> list_all isdecimal_char token)"

definition speed_as_claimed :: "string \<Rightarrow> int option" where
  "speed_as_claimed txt =
     map_option decimal_value
       (find (\<lambda>t. is_decimal_integer t \<and> 10 \<le> decimal_value t \<and> decimal_value t \<le> 130)
          (split_ws (str_replace ''km/h'' ''kmh'' (normalize_text txt))))"

definition example_prompt :: string where
  "example_prompt = ''speeding near a school zone at 40 km/h in urban area''"

definition superscript_prompt :: string where
  \<comment> \<open>\<open>10\<close>, the superscript two U+00B2, then \<open> m at 40 km/h\<close>\<close>
  "superscript_prompt = ''10'' @ [CHR 0xB2] @ '' m at 40 km/h''"

definition request :: "string option \<Rightarrow> filters \<Rightarrow> int \<Rightarrow> recommendation_request" where
  "request p f k = filters.extend f (recommendation_request.fields p k)"

definition no_filters :: filters where
  "no_filters = only_issues []"

definition explicit_request :: recommendation_request where
  "explicit_request =
     request (Some example_prompt)
       \<lparr>road_type = Some ''expressway'', issues = [], environments = [],
        speed_kmh = Some 60, urban_rural = None\<rparr> 10"

definition empty_road_type_request :: recommendation_request where
  "empty_road_type_request =
     request (Some ''rural highway'') (no_filters\<lparr>road_type := Some []\<rparr>) 10"

definition top_zero_request :: recommendation_request where
  "top_zero_request = request None no_filters 0"

section \<open>Order of the ranking\<close>

lemma sort_reverse_sorted: "sorted_wrt (\<lambda>a b. k b \<le> k a) (sort_reverse k xs)"
proof -
  have "sorted (map k (sort_key k (rev xs)))"
    by simp
  then have "sorted_wrt (\<lambda>a b. k a \<le> k b) (sort_key k (rev xs))"
    by (simp add: sorted_wrt_map)
  then show ?thesis
    by (simp add: sort_reverse_def sorted_wrt_rev)
qed

lemma sort_reverse_stable:
  "filter (\<lambda>y. k y = v) (sort_reverse k xs) = filter (\<lambda>y. k y = v) xs"
proof -
  have "filter (\<lambda>y. k y = v) (sort_reverse k xs)
          = rev (filter (\<lambda>y. k y = v) (sort_key k (rev xs)))"
    by (simp add: sort_reverse_def rev_filter)
  also have "\<dots> = rev (filter (\<lambda>y. k y = v) (rev xs))"
    by (simp only: sort_key_stable)
  also have "\<dots> = filter (\<lambda>y. k y = v) xs"
    by (simp add: rev_filter)
  finally show ?thesis .
qed

lemma sort_reverse_mset: "mset (sort_reverse k xs) = mset xs"
  by (simp add: sort_reverse_def)

text \<open>
  C1. For every sequence of records and every filter, the output of
  \<open>rank_interventions\<close> holds the scored input records (the same ones, each once), its
  scores never increase from one position to the next, and for every score the records
  with that score come in the order they have in the input.
\<close>

theorem rank_interventions_sorted_stable:
  "sorted_wrt (\<lambda>a b. r_score b \<le> r_score a) (rank_interventions its f)
   \<and> mset (rank_interventions its f) = mset (map (rank_one f) its)
   \<and> filter (\<lambda>r. r_score r = v) (rank_interventions its f)
       = filter (\<lambda>r. r_score r = v) (map (rank_one f) its)"
  unfolding rank_interventions_def
  using sort_reverse_sorted [of r_score] sort_reverse_stable [of r_score v]
    sort_reverse_mset [of r_score]
  by blast

section \<open>The five factors\<close>

lemma distinct_count_pos: "xs \<noteq> [] \<Longrightarrow> 0 < distinct_count xs"
  by (cases xs) (simp_all add: distinct_count_def card_gt_0_iff)

lemma list_overlap_le: "list_overlap a b \<le> distinct_count a"
  by (simp add: list_overlap_def distinct_count_def Let_def card_mono)

lemma list_overlap_Nil [simp]: "list_overlap a [] = 0"
  by (simp add: list_overlap_def)

lemma issues_block_acc:
  "issues_block f it (s, rs) = (s + contribution issues_block f it, rs @ appended issues_block f it)"
  by (simp add: issues_block_def contribution_def appended_def Let_def)

lemma road_type_block_acc:
  "road_type_block f it (s, rs)
     = (s + contribution road_type_block f it, rs @ appended road_type_block f it)"
  by (simp add: road_type_block_def contribution_def appended_def Let_def split: option.split)

lemma environments_block_acc:
  "environments_block f it (s, rs)
     = (s + contribution environments_block f it, rs @ appended environments_block f it)"
  by (simp add: environments_block_def contribution_def appended_def Let_def)

lemma speed_block_acc:
  "speed_block f it (s, rs) = (s + contribution speed_block f it, rs @ appended speed_block f it)"
  by (simp add: speed_block_def contribution_def appended_def)

lemma urban_rural_block_acc:
  "urban_rural_block f it (s, rs)
     = (s + contribution urban_rural_block f it, rs @ appended urban_rural_block f it)"
  by (simp add: urban_rural_block_def contribution_def appended_def split: option.split)

lemma score_item_sum:
  "score_item f it =
     (contribution issues_block f it + contribution road_type_block f it
        + contribution environments_block f it + contribution speed_block f it
        + contribution urban_rural_block f it,
      appended issues_block f it @ appended road_type_block f it
        @ appended environments_block f it @ appended speed_block f it
        @ appended urban_rural_block f it)"
  unfolding score_item_def
  by (simp only: issues_block_acc [of f it 0 "[]"] road_type_block_acc environments_block_acc
      speed_block_acc urban_rural_block_acc add_0 append_Nil append_assoc)

lemma ratio_bounds:
  assumes "xs \<noteq> []"
  shows "0 \<le> (of_nat (list_overlap xs ys) :: rat) / of_nat (distinct_count xs)"
    and "(of_nat (list_overlap xs ys) :: rat) / of_nat (distinct_count xs) \<le> 1"
proof -
  have p: "0 < distinct_count xs" using assms by (rule distinct_count_pos)
  show "0 \<le> (of_nat (list_overlap xs ys) :: rat) / of_nat (distinct_count xs)"
    by simp
  have "(of_nat (list_overlap xs ys) :: rat) \<le> of_nat (distinct_count xs)"
    using list_overlap_le [of xs ys] by (simp only: of_nat_le_iff)
  then show "(of_nat (list_overlap xs ys) :: rat) / of_nat (distinct_count xs) \<le> 1"
    using p by (simp add: divide_le_eq_1)
qed

lemma issues_contribution:
  "contribution issues_block f it =
     (if issues f = [] then 0
      else WEIGHTS Issues * (of_nat (list_overlap (issues f) (get_list (i_issues it)))
                              / of_nat (distinct_count (issues f))))"
  by (simp add: contribution_def issues_block_def Let_def)

lemma issues_appended:
  "appended issues_block f it =
     (if issues f \<noteq> [] \<and> 0 < list_overlap (issues f) (get_list (i_issues it))
      then [''Matches issues: '' @ str_nat (list_overlap (issues f) (get_list (i_issues it)))
             @ ''/'' @ str_nat (distinct_count (issues f))]
      else [])"
  by (simp add: appended_def issues_block_def Let_def)

lemma road_type_contribution:
  "contribution road_type_block f it =
     (if road_type f \<noteq> None \<and> road_type f \<noteq> Some []
         \<and> 0 < list_overlap [the (road_type f)] (get_list (i_road_types it))
      then WEIGHTS RoadTypes else 0)"
  by (simp add: contribution_def road_type_block_def Let_def split: option.split)

lemma road_type_appended:
  "appended road_type_block f it =
     (if road_type f \<noteq> None \<and> road_type f \<noteq> Some []
         \<and> 0 < list_overlap [the (road_type f)] (get_list (i_road_types it))
      then [''Applicable to specified road type''] else [])"
  by (simp add: appended_def road_type_block_def Let_def split: option.split)

lemma environments_contribution:
  "contribution environments_block f it =
     (if environments f = [] then 0
      else WEIGHTS Environments
             * (of_nat (list_overlap (environments f) (get_list (i_environments it)))
                 / of_nat (distinct_count (environments f))))"
  by (simp add: contribution_def environments_block_def Let_def)

lemma environments_appended:
  "appended environments_block f it =
     (if environments f \<noteq> [] \<and> 0 < list_overlap (environments f) (get_list (i_environments it))
      then [''Suitable for the described environment''] else [])"
  by (simp add: appended_def environments_block_def Let_def)

lemma speed_contribution:
  "contribution speed_block f it =
     (if speed_kmh f \<noteq> None \<and> truthy_list (i_suitable_speed_range it)
         \<and> speed_in_range (speed_kmh f) (i_suitable_speed_range it)
      then WEIGHTS Speed else 0)"
  by (simp add: contribution_def speed_block_def)

lemma speed_appended:
  "appended speed_block f it =
     (if speed_kmh f \<noteq> None \<and> truthy_list (i_suitable_speed_range it)
         \<and> speed_in_range (speed_kmh f) (i_suitable_speed_range it)
      then [''Effective within given speed range''] else [])"
  by (simp add: appended_def speed_block_def)

lemma urban_rural_contribution:
  "contribution urban_rural_block f it =
     (if urban_rural f \<noteq> None \<and> urban_rural f \<noteq> Some [] \<and> truthy_list (i_urban_rural it)
         \<and> normalize_text (the (urban_rural f))
              \<in> set (map normalize_text (get_list (i_urban_rural it)))
      then WEIGHTS UrbanRural else 0)"
  by (simp add: contribution_def urban_rural_block_def split: option.split)

lemma urban_rural_appended:
  "appended urban_rural_block f it =
     (if urban_rural f \<noteq> None \<and> urban_rural f \<noteq> Some [] \<and> truthy_list (i_urban_rural it)
         \<and> normalize_text (the (urban_rural f))
              \<in> set (map normalize_text (get_list (i_urban_rural it)))
      then [''Designed for the specified context (urban/rural)''] else [])"
  by (simp add: appended_def urban_rural_block_def split: option.split)

lemma issues_contribution_bounds:
  "0 \<le> contribution issues_block f it" "contribution issues_block f it \<le> WEIGHTS Issues"
  using ratio_bounds [of "issues f" "get_list (i_issues it)"]
  by (auto simp: issues_contribution mult_left_le)

lemma environments_contribution_bounds:
  "0 \<le> contribution environments_block f it"
  "contribution environments_block f it \<le> WEIGHTS Environments"
  using ratio_bounds [of "environments f" "get_list (i_environments it)"]
  by (auto simp: environments_contribution mult_left_le)

lemma py_round_bounds:
  assumes "of_int a \<le> x * 10 ^ n" and "x * 10 ^ n \<le> of_int b"
  shows "of_int a / 10 ^ n \<le> py_round x n" and "py_round x n \<le> of_int b / 10 ^ n"
proof -
  define y where "y = x * 10 ^ n"
  define k where "k = (if y - of_int \<lfloor>y\<rfloor> < 1 / 2 then \<lfloor>y\<rfloor>
                 else if 1 / 2 < y - of_int \<lfloor>y\<rfloor> then \<lfloor>y\<rfloor> + 1
                 else if even \<lfloor>y\<rfloor> then \<lfloor>y\<rfloor> else \<lfloor>y\<rfloor> + 1)"
  have r: "py_round x n = of_int k / 10 ^ n"
    by (simp add: py_round_def Let_def k_def y_def)
  have "a \<le> \<lfloor>y\<rfloor>" using assms(1) by (simp add: y_def le_floor_iff)
  then have lo: "a \<le> k" by (simp add: k_def)
  have hi: "k \<le> b"
  proof (cases "\<lfloor>y\<rfloor> < b")
    case True
    then show ?thesis by (simp add: k_def)
  next
    case False
    have "\<lfloor>y\<rfloor> \<le> b" using assms(2) by (simp add: y_def floor_le_iff)
    with False have e: "\<lfloor>y\<rfloor> = b" by simp
    have "of_int \<lfloor>y\<rfloor> \<le> y" by simp
    with e assms(2) have "y = of_int b" by (simp add: y_def)
    then show ?thesis by (simp add: k_def)
  qed
  have pos: "(0::rat) < 10 ^ n" by simp
  show "of_int a / 10 ^ n \<le> py_round x n"
    using lo pos by (simp add: r divide_le_cancel)
  show "py_round x n \<le> of_int b / 10 ^ n"
    using hi pos by (simp add: r divide_le_cancel)
qed


lemma of_char_lower_char:
  "(of_char (lower_char c) :: nat)
     = (if (65 \<le> (of_char c :: nat) \<and> (of_char c :: nat) \<le> 90)
           \<or> (192 \<le> (of_char c :: nat) \<and> (of_char c :: nat) \<le> 222 \<and> (of_char c :: nat) \<noteq> 215)
        then of_char c + 32 else of_char c)"
  by (simp add: lower_char_def Let_def)

lemma lower_arith:
  fixes m n :: nat
  shows "((if (65 \<le> m \<and> m \<le> 90) \<or> (192 \<le> m \<and> m \<le> 222 \<and> m \<noteq> 215) then m + 32 else m)
          = (if (65 \<le> n \<and> n \<le> 90) \<or> (192 \<le> n \<and> n \<le> 222 \<and> n \<noteq> 215) then n + 32 else n))
         = (m = n
            \<or> (((65 \<le> m \<and> m \<le> 90) \<or> (192 \<le> m \<and> m \<le> 222 \<and> m \<noteq> 215)) \<and> n = m + 32)
            \<or> (((65 \<le> n \<and> n \<le> 90) \<or> (192 \<le> n \<and> n \<le> 222 \<and> n \<noteq> 215)) \<and> m = n + 32))"
  by presburger

lemma lower_char_eq_iff: "(lower_char c = lower_char d) = same_char c d"
proof -
  have "(lower_char c = lower_char d)
          = ((of_char (lower_char c) :: nat) = of_char (lower_char d))"
    by simp
  also have "\<dots> = ((of_char c :: nat) = of_char d
            \<or> (((65 \<le> (of_char c :: nat) \<and> (of_char c :: nat) \<le> 90)
                 \<or> (192 \<le> (of_char c :: nat) \<and> (of_char c :: nat) \<le> 222
                    \<and> (of_char c :: nat) \<noteq> 215)) \<and> (of_char d :: nat) = of_char c + 32)
            \<or> (((65 \<le> (of_char d :: nat) \<and> (of_char d :: nat) \<le> 90)
                 \<or> (192 \<le> (of_char d :: nat) \<and> (of_char d :: nat) \<le> 222
                    \<and> (of_char d :: nat) \<noteq> 215)) \<and> (of_char c :: nat) = of_char d + 32))"
    by (simp only: of_char_lower_char lower_arith)
  also have "\<dots> = same_char c d"
    by (simp add: same_char_def letter_pair_def Let_def)
  finally show ?thesis .
qed

lemma lower_eq_iff: "(lower s = lower t) = list_all2 same_char s t"
proof -
  have "(lower s = lower t) = list_all2 (=) (map lower_char s) (map lower_char t)"
    by (simp add: lower_def list.rel_eq)
  also have "\<dots> = list_all2 (\<lambda>c d. lower_char c = lower_char d) s t"
    by (simp add: list.rel_map)
  also have "\<dots> = list_all2 same_char s t"
    by (simp add: lower_char_eq_iff)
  finally show ?thesis .
qed

lemma trimmed_of_strip: "trimmed_of x (strip x)"
proof -
  define y where "y = dropWhile isspace x"
  define t where "t = rev (dropWhile isspace (rev y))"
  define v where "v = rev (takeWhile isspace (rev y))"
  have x: "x = takeWhile isspace x @ y"
    by (simp add: y_def)
  have "t @ v = rev (takeWhile isspace (rev y) @ dropWhile isspace (rev y))"
    by (simp only: t_def v_def rev_append)
  also have "\<dots> = y"
    by (simp only: takeWhile_dropWhile_id rev_rev_ident)
  finally have y: "y = t @ v"
    by (rule sym)
  have u_ws: "list_all isspace (takeWhile isspace x)"
    by (auto simp: list_all_iff dest: set_takeWhileD)
  have v_ws: "list_all isspace v"
    by (auto simp: v_def list_all_iff dest: set_takeWhileD)
  have ends: "t = [] \<or> (\<not> isspace (hd t) \<and> \<not> isspace (last t))"
  proof (cases "t = []")
    case True
    then show ?thesis by simp
  next
    case False
    then have d: "dropWhile isspace (rev y) \<noteq> []"
      by (simp add: t_def)
    have "last t = hd (dropWhile isspace (rev y))"
      using d by (simp add: t_def last_rev)
    then have l: "\<not> isspace (last t)"
      using hd_dropWhile [OF d] by simp
    from False y have yn: "y \<noteq> []" by simp
    have "hd t = hd y"
      using False y by simp
    then have h: "\<not> isspace (hd t)"
      using hd_dropWhile [of isspace x] yn by (simp add: y_def)
    from l h show ?thesis by simp
  qed
  have s: "strip x = t"
    by (simp add: strip_def t_def y_def)
  have "x = takeWhile isspace x @ t @ v"
    using x y by simp
  with u_ws v_ws ends show ?thesis
    unfolding trimmed_of_def s by blast
qed

lemma trimmed_of_unique: "trimmed_of x t \<Longrightarrow> strip x = t"
proof -
  assume "trimmed_of x t"
  then obtain u v where x: "x = u @ t @ v" and u: "list_all isspace u"
    and v: "list_all isspace v"
    and e: "t = [] \<or> (\<not> isspace (hd t) \<and> \<not> isspace (last t))"
    unfolding trimmed_of_def by blast
  have du: "dropWhile isspace (u @ t @ v) = dropWhile isspace (t @ v)"
    using u by (simp add: list_all_iff)
  show ?thesis
  proof (cases "t = []")
    case True
    have d: "dropWhile isspace x = []"
      using x u v True by (auto simp: list_all_iff)
    have "strip x = rev (dropWhile isspace (rev []))"
      by (simp only: strip_def d)
    with True show ?thesis
      by simp
  next
    case False
    with e have h: "\<not> isspace (hd t)" and l: "\<not> isspace (last t)" by simp_all
    have "dropWhile isspace (t @ v) = t @ v"
      using False h by (cases t) simp_all
    with du x have d1: "dropWhile isspace x = t @ v" by simp
    have "dropWhile isspace (rev v @ rev t) = dropWhile isspace (rev t)"
      using v by (intro dropWhile_append2) (simp add: list_all_iff)
    also have "\<dots> = rev t"
      using False l by (cases "rev t") (simp_all add: hd_rev)
    finally show ?thesis
      by (simp add: strip_def d1)
  qed
qed

lemma normalize_eq_iff: "(normalize_text x = normalize_text y) = same_label x y"
proof
  assume "normalize_text x = normalize_text y"
  then have "list_all2 same_char (strip x) (strip y)"
    by (simp add: normalize_text_def lower_eq_iff)
  with trimmed_of_strip [of x] trimmed_of_strip [of y] show "same_label x y"
    unfolding same_label_def by blast
next
  assume "same_label x y"
  then obtain s t where "trimmed_of x s" "trimmed_of y t" "list_all2 same_char s t"
    unfolding same_label_def by blast
  then have "list_all2 same_char (strip x) (strip y)"
    by (simp add: trimmed_of_unique)
  then show "normalize_text x = normalize_text y"
    by (simp add: normalize_text_def lower_eq_iff)
qed

lemma card_image_same_kernel:
  "finite A \<Longrightarrow> (\<And>x y. x \<in> A \<Longrightarrow> y \<in> A \<Longrightarrow> (f x = f y) = (g x = g y)) \<Longrightarrow>
   card (f ` A) = card (g ` A)"
proof (induction A rule: finite_induct)
  case empty
  then show ?case by simp
next
  case (insert a A)
  have ih: "card (f ` A) = card (g ` A)"
    using insert.IH insert.prems by simp
  have m: "(f a \<in> f ` A) = (g a \<in> g ` A)"
    using insert.prems by (auto simp: image_iff) 
  have fin: "finite (f ` A)" "finite (g ` A)"
    using insert.hyps by simp_all
  show ?case
    using ih m fin by (simp add: card_insert_if)
qed

lemma label_class_eq:
  "({(x, y). same_label x y} `` {a} = {(x, y). same_label x y} `` {b})
     = (normalize_text a = normalize_text b)"
  by (auto simp: normalize_eq_iff [symmetric])

lemma distinct_labels_card:
  "finite A \<Longrightarrow> distinct_labels A = card (normalize_text ` A)"
proof -
  assume fin: "finite A"
  have q: "A // {(x, y). same_label x y} = (\<lambda>a. {(x, y). same_label x y} `` {a}) ` A"
    by (auto simp: quotient_def)
  have "card (normalize_text ` A) = card ((\<lambda>a. {(x, y). same_label x y} `` {a}) ` A)"
    by (rule card_image_same_kernel [OF fin]) (rule label_class_eq [symmetric])
  then show ?thesis
    by (simp add: distinct_labels_def q)
qed

lemma distinct_count_labels: "distinct_count a = distinct_labels (set a)"
  by (simp add: distinct_count_def distinct_labels_card)

lemma list_overlap_labels: "list_overlap a b = distinct_labels (common_labels a b)"
proof -
  have "normalize_text ` set a \<inter> normalize_text ` set b
          = normalize_text ` common_labels a b"
    by (auto simp: common_labels_def normalize_eq_iff [symmetric]) 
  moreover have "finite (common_labels a b)"
    by (simp add: common_labels_def)
  ultimately show ?thesis
    by (simp add: list_overlap_def distinct_labels_card)
qed


lemma overlap_le_labels:
  "distinct_labels (common_labels a b) \<le> distinct_labels (set a)"
  using list_overlap_le [of a b] by (simp only: list_overlap_labels distinct_count_labels)

text \<open>
  C2. For a filter with a non-empty issues list, the issues block adds exactly
  \<open>0.45 * (overlap / distinct_filter_issue_count)\<close> to the score it is given, which in
  \<open>score_item\<close> is the initial 0, and nothing for an empty list. Here \<open>overlap\<close> is the
  number of distinct labels among the filter's issues that are also labels of the record's
  issues, and the divisor is the number of distinct labels among the filter's issues,
  labels being compared trimmed and without regard to case (\<open>same_label\<close>); this is what
  \<open>list_overlap\<close> and \<open>distinct_count\<close> compute through \<open>normalize_text\<close>. The divisor is
  positive and the overlap never exceeds it. The reason \<open>Matches issues: overlap/count\<close> is
  appended exactly when the overlap is positive. The filter
  \<open>["speeding", "pedestrian crashes"]\<close> against a record with the same two issues adds
  \<open>0.45 * (2/2)\<close>. The witness has labels that differ in case and padding.
\<close>

theorem issues_factor_contribution:
  "(issues f \<noteq> [] \<longrightarrow>
      issues_block f it (s, rs)
        = (s + 45 / 100
                 * (of_nat (distinct_labels (common_labels (issues f) (get_list (i_issues it))))
                     / of_nat (distinct_labels (set (issues f)))),
           if 0 < distinct_labels (common_labels (issues f) (get_list (i_issues it)))
           then rs @ [''Matches issues: ''
                       @ str_nat (distinct_labels
                                    (common_labels (issues f) (get_list (i_issues it))))
                       @ ''/'' @ str_nat (distinct_labels (set (issues f)))]
           else rs)
      \<and> 0 < distinct_labels (set (issues f))
      \<and> distinct_labels (common_labels (issues f) (get_list (i_issues it)))
          \<le> distinct_labels (set (issues f)))
   \<and> (issues f = [] \<longrightarrow> issues_block f it (s, rs) = (s, rs))
   \<and> score_item f it
       = urban_rural_block f it (speed_block f it (environments_block f it
           (road_type_block f it (issues_block f it (0, [])))))
   \<and> same_label x y = (normalize_text x = normalize_text y)
   \<and> list_overlap a b = distinct_labels (common_labels a b)
   \<and> distinct_count a = distinct_labels (set a)
   \<and> list_overlap mixed_case_issues [''Pedestrian Crashes'', ''speeding''] = 2
   \<and> distinct_count mixed_case_issues = 3
   \<and> issues_block (only_issues [''speeding'', ''pedestrian crashes'']) seed_raised_crossing
         (0, [])
       = (45 / 100 * (2 / 2), [''Matches issues: 2/2''])"
proof -
  have b: "issues_block f it (s, rs)
        = (s + 45 / 100
                 * (of_nat (distinct_labels (common_labels (issues f) (get_list (i_issues it))))
                     / of_nat (distinct_labels (set (issues f)))),
           if 0 < distinct_labels (common_labels (issues f) (get_list (i_issues it)))
           then rs @ [''Matches issues: ''
                       @ str_nat (distinct_labels
                                    (common_labels (issues f) (get_list (i_issues it))))
                       @ ''/'' @ str_nat (distinct_labels (set (issues f)))]
           else rs)"
    if "issues f \<noteq> []"
    using that
    by (simp add: issues_block_def Let_def list_overlap_labels distinct_count_labels)
  have p: "0 < distinct_labels (set (issues f))" if "issues f \<noteq> []"
    using distinct_count_pos [OF that] by (simp only: distinct_count_labels)
  note le = overlap_le_labels [of "issues f" "get_list (i_issues it)"]
  have e: "issues_block f it (s, rs) = (s, rs)" if "issues f = []"
    using that by (simp add: issues_block_def)
  note sc = score_item_def [of f it]
  have n: "same_label x y = (normalize_text x = normalize_text y)"
    by (simp only: normalize_eq_iff)
  note lo = list_overlap_labels [of a b] and dc = distinct_count_labels [of a]
  have x1: "list_overlap mixed_case_issues [''Pedestrian Crashes'', ''speeding''] = 2"
    by code_simp
  have x2: "distinct_count mixed_case_issues = 3"
    by code_simp
  have x3: "issues_block (only_issues [''speeding'', ''pedestrian crashes''])
         seed_raised_crossing (0, [])
       = (45 / 100 * (2 / 2), [''Matches issues: 2/2''])"
    by code_simp
  from b p le e sc n lo dc x1 x2 x3 show ?thesis
    by blast
qed

theorem issues_factor_contribution_witness:
  "issues (only_issues mixed_case_issues) \<noteq> []
   \<and> issues_block (only_issues mixed_case_issues) seed_raised_crossing (0, [])
       = (45 / 100 * (2 / 3), [''Matches issues: 2/3''])
   \<and> same_label '' Speeding'' ''speeding''
   \<and> same_label ''PEDESTRIAN crashes  '' ''pedestrian crashes''
   \<and> \<not> same_label ''speeding'' ''Overtaking''"
proof -
  have ne: "issues (only_issues mixed_case_issues) \<noteq> []"
    by (simp add: only_issues_def mixed_case_issues_def)
  have g: "get_list (i_issues seed_raised_crossing) = [''speeding'', ''pedestrian crashes'']"
    by (simp add: seed_raised_crossing_def get_list_def)
  have i: "issues (only_issues mixed_case_issues) = mixed_case_issues"
    by (simp add: only_issues_def)
  have o: "list_overlap mixed_case_issues [''speeding'', ''pedestrian crashes''] = 2"
    by code_simp
  have n: "distinct_count mixed_case_issues = 3"
    by code_simp
  have s2: "str_nat 2 = ''2''" and s3: "str_nat 3 = ''3''"
    by code_simp+
  note t = issues_factor_contribution [of "only_issues mixed_case_issues"
      seed_raised_crossing 0 "[]" _ _ mixed_case_issues "[''speeding'', ''pedestrian crashes'']"]
  from t have c: "distinct_labels
                    (common_labels mixed_case_issues [''speeding'', ''pedestrian crashes''])
                  = 2"
    using o by simp
  from t have d: "distinct_labels (set mixed_case_issues) = 3"
    using n by simp
  from t ne have "issues_block (only_issues mixed_case_issues) seed_raised_crossing (0, [])
        = (0 + 45 / 100
                 * (of_nat (distinct_labels (common_labels
                      (issues (only_issues mixed_case_issues))
                      (get_list (i_issues seed_raised_crossing))))
                     / of_nat (distinct_labels (set (issues (only_issues mixed_case_issues))))),
           if 0 < distinct_labels (common_labels (issues (only_issues mixed_case_issues))
                     (get_list (i_issues seed_raised_crossing)))
           then [] @ [''Matches issues: ''
                       @ str_nat (distinct_labels
                                    (common_labels (issues (only_issues mixed_case_issues))
                                       (get_list (i_issues seed_raised_crossing))))
                       @ ''/''
                       @ str_nat (distinct_labels
                                    (set (issues (only_issues mixed_case_issues))))]
           else [])"
    by blast
  then have blk: "issues_block (only_issues mixed_case_issues) seed_raised_crossing (0, [])
       = (45 / 100 * (2 / 3), [''Matches issues: 2/3''])"
    by (simp add: i g c d s2 s3)
  have e1: "normalize_text '' Speeding'' = normalize_text ''speeding''"
    by code_simp
  have e2: "normalize_text ''PEDESTRIAN crashes  '' = normalize_text ''pedestrian crashes''"
    by code_simp
  have e3: "normalize_text ''speeding'' \<noteq> normalize_text ''Overtaking''"
    by code_simp
  have l1: "same_label '' Speeding'' ''speeding''"
    using issues_factor_contribution [of _ _ _ _ "'' Speeding''" "''speeding''"] e1
    by blast
  have l2: "same_label ''PEDESTRIAN crashes  '' ''pedestrian crashes''"
    using issues_factor_contribution
      [of _ _ _ _ "''PEDESTRIAN crashes  ''" "''pedestrian crashes''"] e2
    by blast
  have l3: "\<not> same_label ''speeding'' ''Overtaking''"
    using issues_factor_contribution [of _ _ _ _ "''speeding''" "''Overtaking''"] e3
    by blast
  from ne blk l1 l2 l3 show ?thesis
    by blast
qed

lemma road_type_contribution_bounds:
  "0 \<le> contribution road_type_block f it \<and> contribution road_type_block f it \<le> WEIGHTS RoadTypes"
  by (simp add: road_type_contribution)

lemma speed_contribution_bounds:
  "0 \<le> contribution speed_block f it \<and> contribution speed_block f it \<le> WEIGHTS Speed"
  by (simp add: speed_contribution)

lemma urban_rural_contribution_bounds:
  "0 \<le> contribution urban_rural_block f it
   \<and> contribution urban_rural_block f it \<le> WEIGHTS UrbanRural"
  by (simp add: urban_rural_contribution)

lemma score_item_bounds: "0 \<le> fst (score_item f it) \<and> fst (score_item f it) \<le> 1"
proof -
  have w: "WEIGHTS Issues + WEIGHTS RoadTypes + WEIGHTS Environments + WEIGHTS Speed
             + WEIGHTS UrbanRural = 1"
    by simp
  show ?thesis
    using issues_contribution_bounds [of f it] environments_contribution_bounds [of f it]
      road_type_contribution_bounds [of f it] speed_contribution_bounds [of f it]
      urban_rural_contribution_bounds [of f it] w
    by (simp only: score_item_sum fst_conv) linarith
qed

lemma r_score_rank_one: "r_score (rank_one f it) = py_round (fst (score_item f it)) 4"
  by (simp add: rank_one_def intervention.extend_def ranked.fields_def split: prod.split)

lemma r_reasons_rank_one: "r_reasons (rank_one f it) = snd (score_item f it)"
  by (simp add: rank_one_def intervention.extend_def ranked.fields_def split: prod.split)

lemma rank_one_bounds: "0 \<le> r_score (rank_one f it) \<and> r_score (rank_one f it) \<le> 1"
proof -
  have a: "of_int 0 \<le> fst (score_item f it) * 10 ^ 4"
    using score_item_bounds [of f it] by simp
  have b: "fst (score_item f it) * 10 ^ 4 \<le> of_int 10000"
    using score_item_bounds [of f it] by simp
  from py_round_bounds [OF a b] show ?thesis
    by (simp add: r_score_rank_one)
qed

lemma set_rank_interventions: "set (rank_interventions its f) = rank_one f ` set its"
  by (simp add: rank_interventions_def sort_reverse_def)

text \<open>
  C3. The five weights sum to 1, every factor adds at least 0 and at most its weight, the
  unrounded score is the sum of the five amounts and lies between 0 and 1, and so does
  the rounded score of every record that \<open>rank_interventions\<close> returns.
\<close>

theorem score_weight_bound:
  "WEIGHTS Issues + WEIGHTS RoadTypes + WEIGHTS Environments + WEIGHTS Speed
     + WEIGHTS UrbanRural = 1
   \<and> 0 \<le> contribution issues_block f it \<and> contribution issues_block f it \<le> WEIGHTS Issues
   \<and> 0 \<le> contribution road_type_block f it
   \<and> contribution road_type_block f it \<le> WEIGHTS RoadTypes
   \<and> 0 \<le> contribution environments_block f it
   \<and> contribution environments_block f it \<le> WEIGHTS Environments
   \<and> 0 \<le> contribution speed_block f it \<and> contribution speed_block f it \<le> WEIGHTS Speed
   \<and> 0 \<le> contribution urban_rural_block f it
   \<and> contribution urban_rural_block f it \<le> WEIGHTS UrbanRural
   \<and> fst (score_item f it)
       = contribution issues_block f it + contribution road_type_block f it
         + contribution environments_block f it + contribution speed_block f it
         + contribution urban_rural_block f it
   \<and> 0 \<le> fst (score_item f it) \<and> fst (score_item f it) \<le> 1
   \<and> (\<forall>r \<in> set (rank_interventions its f). 0 \<le> r_score r \<and> r_score r \<le> 1)"
proof -
  have "\<forall>r \<in> set (rank_interventions its f). 0 \<le> r_score r \<and> r_score r \<le> 1"
    using rank_one_bounds [of f] by (auto simp: set_rank_interventions)
  then show ?thesis
    using issues_contribution_bounds [of f it] environments_contribution_bounds [of f it]
      road_type_contribution_bounds [of f it] speed_contribution_bounds [of f it]
      urban_rural_contribution_bounds [of f it] score_item_bounds [of f it]
    by (simp add: score_item_sum)
qed

theorem score_weight_bound_witness:
  "rank_one full_match_filter seed_raised_crossing
     \<in> set (rank_interventions SEED_DATA full_match_filter)
   \<and> 0 \<le> r_score (rank_one full_match_filter seed_raised_crossing)
   \<and> r_score (rank_one full_match_filter seed_raised_crossing) \<le> 1"
proof -
  have m: "rank_one full_match_filter seed_raised_crossing
             \<in> set (rank_interventions SEED_DATA full_match_filter)"
    by (simp add: set_rank_interventions SEED_DATA_def)
  have "\<forall>r \<in> set (rank_interventions SEED_DATA full_match_filter).
          0 \<le> r_score r \<and> r_score r \<le> 1"
    using score_weight_bound [of full_match_filter seed_raised_crossing SEED_DATA]
    by blast
  with m show ?thesis
    by blast
qed

lemma speed_cond:
  "(spd \<noteq> None \<and> truthy_list rng \<and> speed_in_range spd rng)
     = (\<exists>v lo hi. spd = Some v \<and> rng = Some [lo, hi] \<and> lo \<le> v \<and> v \<le> hi)"
proof (cases spd)
  case None
  then show ?thesis by simp
next
  case (Some v)
  show ?thesis
  proof (cases rng)
    case None
    then show ?thesis by (simp add: truthy_list_def)
  next
    case r: (Some r)
    show ?thesis
    proof (cases r)
      case Nil
      with r show ?thesis by (simp add: truthy_list_def)
    next
      case c1: (Cons lo r1)
      show ?thesis
      proof (cases r1)
        case Nil
        with r c1 Some show ?thesis by (simp add: truthy_list_def speed_in_range_def)
      next
        case c2: (Cons hi r2)
        with r c1 Some show ?thesis
          by (cases r2) (simp_all add: truthy_list_def speed_in_range_def)
      qed
    qed
  qed
qed

lemma other_blocks_speed:
  "contribution issues_block (f\<lparr>speed_kmh := x\<rparr>) it = contribution issues_block f it"
  "contribution road_type_block (f\<lparr>speed_kmh := x\<rparr>) it = contribution road_type_block f it"
  "contribution environments_block (f\<lparr>speed_kmh := x\<rparr>) it
     = contribution environments_block f it"
  "contribution urban_rural_block (f\<lparr>speed_kmh := x\<rparr>) it
     = contribution urban_rural_block f it"
  by (simp_all add: issues_contribution road_type_contribution environments_contribution
      urban_rural_contribution)

lemma if_pair:
  "(s + (if P then d else (0::rat)), rs @ (if P then r else []))
     = (if P then (s + d, rs @ r) else (s, rs))"
  by simp

text \<open>
  C6. The speed block adds a flat 0.05, and appends its reason, if and only if the
  filter's speed is set and the record's speed range is present with exactly two
  elements \<open>lo\<close>, \<open>hi\<close> with \<open>lo \<le> speed \<le> hi\<close>; otherwise it adds nothing. The amount does
  not depend on the other factors. Speed 70 against \<open>[50, 110]\<close> adds 0.05, against
  \<open>[80, 120]\<close> it adds 0.
\<close>

theorem speed_factor_contribution:
  "contribution speed_block f it
     = (if \<exists>v lo hi. speed_kmh f = Some v \<and> i_suitable_speed_range it = Some [lo, hi]
                      \<and> lo \<le> v \<and> v \<le> hi
        then 5 / 100 else 0)
   \<and> speed_block f it (s, rs)
       = (if \<exists>v lo hi. speed_kmh f = Some v \<and> i_suitable_speed_range it = Some [lo, hi]
                        \<and> lo \<le> v \<and> v \<le> hi
          then (s + 5 / 100, rs @ [''Effective within given speed range''])
          else (s, rs))
   \<and> fst (score_item f it)
       = fst (score_item (f\<lparr>speed_kmh := None\<rparr>) it) + contribution speed_block f it
   \<and> contribution speed_block (f\<lparr>speed_kmh := Some 70\<rparr>)
         (it\<lparr>i_suitable_speed_range := Some [50, 110]\<rparr>) = 5 / 100
   \<and> contribution speed_block (f\<lparr>speed_kmh := Some 70\<rparr>)
         (it\<lparr>i_suitable_speed_range := Some [80, 120]\<rparr>) = 0"
proof -
  have c: "contribution speed_block f it
     = (if \<exists>v lo hi. speed_kmh f = Some v \<and> i_suitable_speed_range it = Some [lo, hi]
                      \<and> lo \<le> v \<and> v \<le> hi
        then 5 / 100 else 0)"
    by (simp only: speed_contribution speed_cond WEIGHTS.simps)
  have a: "appended speed_block f it
     = (if \<exists>v lo hi. speed_kmh f = Some v \<and> i_suitable_speed_range it = Some [lo, hi]
                      \<and> lo \<le> v \<and> v \<le> hi
        then [''Effective within given speed range''] else [])"
    by (simp only: speed_appended speed_cond)
  have b: "speed_block f it (s, rs)
       = (if \<exists>v lo hi. speed_kmh f = Some v \<and> i_suitable_speed_range it = Some [lo, hi]
                        \<and> lo \<le> v \<and> v \<le> hi
          then (s + 5 / 100, rs @ [''Effective within given speed range''])
          else (s, rs))"
    by (simp only: speed_block_acc c a if_pair)
  have z: "contribution speed_block (f\<lparr>speed_kmh := None\<rparr>) it = 0"
    by (simp add: speed_contribution)
  have t: "fst (score_item f it)
       = fst (score_item (f\<lparr>speed_kmh := None\<rparr>) it) + contribution speed_block f it"
    by (simp add: score_item_sum other_blocks_speed z)
  have e1: "contribution speed_block (f\<lparr>speed_kmh := Some 70\<rparr>)
         (it\<lparr>i_suitable_speed_range := Some [50, 110]\<rparr>) = 5 / 100"
    by (simp add: speed_contribution truthy_list_def speed_in_range_def)
  have e2: "contribution speed_block (f\<lparr>speed_kmh := Some 70\<rparr>)
         (it\<lparr>i_suitable_speed_range := Some [80, 120]\<rparr>) = 0"
    by (simp add: speed_contribution truthy_list_def speed_in_range_def)
  from c b t e1 e2 show ?thesis
    by blast
qed

lemma get_list_None [simp]: "get_list None = []"
  by (simp add: get_list_def)

lemma get_list_Some [simp]: "get_list (Some xs) = xs"
  by (simp add: get_list_def)

text \<open>
  C9. A record from which a label sequence is missing is scored as if the sequence were
  empty: the overlap with an absent field is 0, the block of the absent field leaves
  score and reasons as they are, and it behaves as on the empty list. A record with all
  five fields missing gets score 0 and no reasons. The blocks are total functions: no
  branch of them raises.
\<close>

theorem missing_fields_as_empty:
  "list_overlap xs (get_list None) = 0
   \<and> issues_block f (it\<lparr>i_issues := None\<rparr>) (s, rs) = (s, rs)
   \<and> road_type_block f (it\<lparr>i_road_types := None\<rparr>) (s, rs) = (s, rs)
   \<and> environments_block f (it\<lparr>i_environments := None\<rparr>) (s, rs) = (s, rs)
   \<and> speed_block f (it\<lparr>i_suitable_speed_range := None\<rparr>) (s, rs) = (s, rs)
   \<and> urban_rural_block f (it\<lparr>i_urban_rural := None\<rparr>) (s, rs) = (s, rs)
   \<and> issues_block f (it\<lparr>i_issues := None\<rparr>) = issues_block f (it\<lparr>i_issues := Some []\<rparr>)
   \<and> road_type_block f (it\<lparr>i_road_types := None\<rparr>)
       = road_type_block f (it\<lparr>i_road_types := Some []\<rparr>)
   \<and> environments_block f (it\<lparr>i_environments := None\<rparr>)
       = environments_block f (it\<lparr>i_environments := Some []\<rparr>)
   \<and> speed_block f (it\<lparr>i_suitable_speed_range := None\<rparr>)
       = speed_block f (it\<lparr>i_suitable_speed_range := Some []\<rparr>)
   \<and> urban_rural_block f (it\<lparr>i_urban_rural := None\<rparr>)
       = urban_rural_block f (it\<lparr>i_urban_rural := Some []\<rparr>)
   \<and> score_item f (it\<lparr>i_road_types := None, i_issues := None, i_environments := None,
                        i_suitable_speed_range := None, i_urban_rural := None\<rparr>) = (0, [])
   \<and> r_score (rank_one f (it\<lparr>i_road_types := None, i_issues := None,
                              i_environments := None, i_suitable_speed_range := None,
                              i_urban_rural := None\<rparr>)) = 0"
proof -
  have b1: "issues_block f (it\<lparr>i_issues := None\<rparr>) (s, rs) = (s, rs)"
    by (simp add: issues_block_def)
  have b2: "road_type_block f (it\<lparr>i_road_types := None\<rparr>) (s, rs) = (s, rs)"
    by (simp add: road_type_block_def split: option.split)
  have b3: "environments_block f (it\<lparr>i_environments := None\<rparr>) (s, rs) = (s, rs)"
    by (simp add: environments_block_def)
  have b4: "speed_block f (it\<lparr>i_suitable_speed_range := None\<rparr>) (s, rs) = (s, rs)"
    by (simp add: speed_block_def truthy_list_def)
  have b5: "urban_rural_block f (it\<lparr>i_urban_rural := None\<rparr>) (s, rs) = (s, rs)"
    by (simp add: urban_rural_block_def truthy_list_def split: option.split)
  have e1: "issues_block f (it\<lparr>i_issues := None\<rparr>) = issues_block f (it\<lparr>i_issues := Some []\<rparr>)"
    by (rule ext) (simp add: issues_block_def split: prod.split)
  have e2: "road_type_block f (it\<lparr>i_road_types := None\<rparr>)
       = road_type_block f (it\<lparr>i_road_types := Some []\<rparr>)"
    by (rule ext) (simp add: road_type_block_def split: prod.split option.split)
  have e3: "environments_block f (it\<lparr>i_environments := None\<rparr>)
       = environments_block f (it\<lparr>i_environments := Some []\<rparr>)"
    by (rule ext) (simp add: environments_block_def split: prod.split)
  have e4: "speed_block f (it\<lparr>i_suitable_speed_range := None\<rparr>)
       = speed_block f (it\<lparr>i_suitable_speed_range := Some []\<rparr>)"
    by (rule ext) (simp add: speed_block_def truthy_list_def split: prod.split)
  have e5: "urban_rural_block f (it\<lparr>i_urban_rural := None\<rparr>)
       = urban_rural_block f (it\<lparr>i_urban_rural := Some []\<rparr>)"
    by (rule ext) (simp add: urban_rural_block_def truthy_list_def split: prod.split option.split)
  have t: "score_item f (it\<lparr>i_road_types := None, i_issues := None, i_environments := None,
                        i_suitable_speed_range := None, i_urban_rural := None\<rparr>) = (0, [])"
    by (simp add: score_item_sum issues_contribution issues_appended road_type_contribution
        road_type_appended environments_contribution environments_appended speed_contribution
        speed_appended urban_rural_contribution urban_rural_appended truthy_list_def)
  have r: "r_score (rank_one f (it\<lparr>i_road_types := None, i_issues := None,
                              i_environments := None, i_suitable_speed_range := None,
                              i_urban_rural := None\<rparr>)) = 0"
    by (simp only: r_score_rank_one t fst_conv) (simp add: py_round_def)
  from b1 b2 b3 b4 b5 e1 e2 e3 e4 e5 t r show ?thesis
    by simp
qed

lemma issues_positive:
  "(0 < contribution issues_block f it)
     = (issues f \<noteq> [] \<and> 0 < list_overlap (issues f) (get_list (i_issues it)))"
  using distinct_count_pos [of "issues f"]
  by (auto simp: issues_contribution zero_less_mult_iff zero_less_divide_iff)

lemma environments_positive:
  "(0 < contribution environments_block f it)
     = (environments f \<noteq> []
        \<and> 0 < list_overlap (environments f) (get_list (i_environments it)))"
  using distinct_count_pos [of "environments f"]
  by (auto simp: environments_contribution zero_less_mult_iff zero_less_divide_iff)

text \<open>
  C10. Each block appends its reason string exactly when the amount it adds to the
  unrounded score is strictly positive, and nothing otherwise; the reasons of a record
  are the reasons of the five blocks in order, so the list of reasons is non-empty if
  and only if the unrounded score is greater than 0.
\<close>

theorem reasons_iff_positive_contribution:
  "appended issues_block f it
     = (if 0 < contribution issues_block f it
        then [''Matches issues: '' @ str_nat (list_overlap (issues f) (get_list (i_issues it)))
               @ ''/'' @ str_nat (distinct_count (issues f))]
        else [])
   \<and> appended road_type_block f it
       = (if 0 < contribution road_type_block f it
          then [''Applicable to specified road type''] else [])
   \<and> appended environments_block f it
       = (if 0 < contribution environments_block f it
          then [''Suitable for the described environment''] else [])
   \<and> appended speed_block f it
       = (if 0 < contribution speed_block f it
          then [''Effective within given speed range''] else [])
   \<and> appended urban_rural_block f it
       = (if 0 < contribution urban_rural_block f it
          then [''Designed for the specified context (urban/rural)''] else [])
   \<and> score_item f it
       = (contribution issues_block f it + contribution road_type_block f it
            + contribution environments_block f it + contribution speed_block f it
            + contribution urban_rural_block f it,
          appended issues_block f it @ appended road_type_block f it
            @ appended environments_block f it @ appended speed_block f it
            @ appended urban_rural_block f it)
   \<and> r_reasons (rank_one f it) = snd (score_item f it)
   \<and> (snd (score_item f it) \<noteq> []) = (0 < fst (score_item f it))"
proof -
  have a1: "appended issues_block f it
     = (if 0 < contribution issues_block f it
        then [''Matches issues: '' @ str_nat (list_overlap (issues f) (get_list (i_issues it)))
               @ ''/'' @ str_nat (distinct_count (issues f))]
        else [])"
    by (simp only: issues_positive issues_appended)
  have a2: "appended road_type_block f it
       = (if 0 < contribution road_type_block f it
          then [''Applicable to specified road type''] else [])"
    by (simp add: road_type_contribution road_type_appended)
  have a3: "appended environments_block f it
       = (if 0 < contribution environments_block f it
          then [''Suitable for the described environment''] else [])"
    by (simp only: environments_positive environments_appended)
  have a4: "appended speed_block f it
       = (if 0 < contribution speed_block f it
          then [''Effective within given speed range''] else [])"
    by (simp add: speed_contribution speed_appended)
  have a5: "appended urban_rural_block f it
       = (if 0 < contribution urban_rural_block f it
          then [''Designed for the specified context (urban/rural)''] else [])"
    by (simp add: urban_rural_contribution urban_rural_appended)
  have nn: "0 \<le> contribution issues_block f it" "0 \<le> contribution road_type_block f it"
    "0 \<le> contribution environments_block f it" "0 \<le> contribution speed_block f it"
    "0 \<le> contribution urban_rural_block f it"
    using issues_contribution_bounds [of f it] environments_contribution_bounds [of f it]
      road_type_contribution_bounds [of f it] speed_contribution_bounds [of f it]
      urban_rural_contribution_bounds [of f it]
    by simp_all
  have "(snd (score_item f it) \<noteq> [])
          = (0 < contribution issues_block f it \<or> 0 < contribution road_type_block f it
             \<or> 0 < contribution environments_block f it \<or> 0 < contribution speed_block f it
             \<or> 0 < contribution urban_rural_block f it)"
    by (simp only: score_item_sum snd_conv a1 a2 a3 a4 a5) simp
  also have "\<dots> = (0 < fst (score_item f it))"
    using nn by (simp only: score_item_sum fst_conv) linarith
  finally have i: "(snd (score_item f it) \<noteq> []) = (0 < fst (score_item f it))" .
  note s = score_item_sum [of f it] and rr = r_reasons_rank_one [of f it]
  from a1 a2 a3 a4 a5 s rr i show ?thesis
    by blast
qed

section \<open>The parser\<close>

lemma parse_example:
  "parse_free_text example_prompt
     = Inr \<lparr>road_type = None, issues = [''speeding''], environments = [''school zone''],
            speed_kmh = Some 40, urban_rural = Some ''urban''\<rparr>"
  by code_simp

lemma parse_urban_rural:
  "parse_free_text ''Urban or rural highway''
     = Inr \<lparr>road_type = Some ''rural highway'', issues = [], environments = [],
            speed_kmh = None, urban_rural = Some ''urban''\<rparr>"
  by code_simp

lemma parse_fields:
  assumes "parse_free_text p = Inr flt"
  shows "road_type flt = find (\<lambda>rt. sublist rt (normalize_text p)) KNOWN_ROAD_TYPES"
    and "issues flt = filter (\<lambda>kw. sublist kw (normalize_text p)) KNOWN_ISSUES"
    and "environments flt = filter (\<lambda>kw. sublist kw (normalize_text p)) KNOWN_ENVIRONMENTS"
    and "urban_rural flt = (if sublist ''urban'' (normalize_text p) then Some ''urban''
                            else if sublist ''rural'' (normalize_text p) then Some ''rural''
                            else None)"
    and "scan_speed (split_ws (str_replace ''km/h'' ''kmh'' (normalize_text p)))
           = Inr (speed_kmh flt)"
  using assms by (auto simp: parse_free_text_def Let_def split: sum.splits)

text \<open>
  C7. \<open>parse_free_text\<close> on the prompt \<open>speeding near a school zone at 40 km/h in urban area\<close>
  returns issues \<open>speeding\<close>, environments \<open>school zone\<close>, speed 40, \<open>urban\<close> and no road
  type. Whenever it returns, the issues and environments are the vocabulary entries that
  occur in the normalized prompt, the road type is the first road-type entry that occurs
  there (none if no entry occurs), and \<open>urban\<close> is chosen whenever it occurs, \<open>rural\<close> only
  when \<open>urban\<close> does not.
\<close>

theorem parse_free_text_example:
  "parse_free_text ''speeding near a school zone at 40 km/h in urban area''
     = Inr \<lparr>road_type = None, issues = [''speeding''], environments = [''school zone''],
            speed_kmh = Some 40, urban_rural = Some ''urban''\<rparr>
   \<and> (parse_free_text p = Inr flt \<longrightarrow>
        set (issues flt)
          = {kw \<in> set KNOWN_ISSUES. \<exists>u v. normalize_text p = u @ kw @ v}
      \<and> set (environments flt)
          = {kw \<in> set KNOWN_ENVIRONMENTS. \<exists>u v. normalize_text p = u @ kw @ v}
      \<and> (road_type flt = None)
          = (\<forall>rt \<in> set KNOWN_ROAD_TYPES. \<not> sublist rt (normalize_text p))
      \<and> (\<forall>rt. road_type flt = Some rt \<longrightarrow>
            (\<exists>i < length KNOWN_ROAD_TYPES. KNOWN_ROAD_TYPES ! i = rt
               \<and> sublist rt (normalize_text p)
               \<and> (\<forall>j < i. \<not> sublist (KNOWN_ROAD_TYPES ! j) (normalize_text p))))
      \<and> (sublist ''urban'' (normalize_text p) \<longrightarrow> urban_rural flt = Some ''urban'')
      \<and> (\<not> sublist ''urban'' (normalize_text p) \<and> sublist ''rural'' (normalize_text p)
            \<longrightarrow> urban_rural flt = Some ''rural'')
      \<and> (\<not> sublist ''urban'' (normalize_text p) \<and> \<not> sublist ''rural'' (normalize_text p)
            \<longrightarrow> urban_rural flt = None))"
proof -
  have ex: "parse_free_text ''speeding near a school zone at 40 km/h in urban area''
     = Inr \<lparr>road_type = None, issues = [''speeding''], environments = [''school zone''],
            speed_kmh = Some 40, urban_rural = Some ''urban''\<rparr>"
    using parse_example by (simp only: example_prompt_def)
  have gen: "set (issues flt)
          = {kw \<in> set KNOWN_ISSUES. \<exists>u v. normalize_text p = u @ kw @ v}
      \<and> set (environments flt)
          = {kw \<in> set KNOWN_ENVIRONMENTS. \<exists>u v. normalize_text p = u @ kw @ v}
      \<and> (road_type flt = None)
          = (\<forall>rt \<in> set KNOWN_ROAD_TYPES. \<not> sublist rt (normalize_text p))
      \<and> (\<forall>rt. road_type flt = Some rt \<longrightarrow>
            (\<exists>i < length KNOWN_ROAD_TYPES. KNOWN_ROAD_TYPES ! i = rt
               \<and> sublist rt (normalize_text p)
               \<and> (\<forall>j < i. \<not> sublist (KNOWN_ROAD_TYPES ! j) (normalize_text p))))
      \<and> (sublist ''urban'' (normalize_text p) \<longrightarrow> urban_rural flt = Some ''urban'')
      \<and> (\<not> sublist ''urban'' (normalize_text p) \<and> sublist ''rural'' (normalize_text p)
            \<longrightarrow> urban_rural flt = Some ''rural'')
      \<and> (\<not> sublist ''urban'' (normalize_text p) \<and> \<not> sublist ''rural'' (normalize_text p)
            \<longrightarrow> urban_rural flt = None)"
    if h: "parse_free_text p = Inr flt"
  proof -
    note f = parse_fields [OF h]
    have i: "set (issues flt)
          = {kw \<in> set KNOWN_ISSUES. \<exists>u v. normalize_text p = u @ kw @ v}"
      by (simp only: f(2) set_filter sublist_def)
    have e: "set (environments flt)
          = {kw \<in> set KNOWN_ENVIRONMENTS. \<exists>u v. normalize_text p = u @ kw @ v}"
      by (simp only: f(3) set_filter sublist_def)
    have n: "(road_type flt = None)
          = (\<forall>rt \<in> set KNOWN_ROAD_TYPES. \<not> sublist rt (normalize_text p))"
      by (simp only: f(1) find_None_iff) blast
    have r: "\<forall>rt. road_type flt = Some rt \<longrightarrow>
            (\<exists>i < length KNOWN_ROAD_TYPES. KNOWN_ROAD_TYPES ! i = rt
               \<and> sublist rt (normalize_text p)
               \<and> (\<forall>j < i. \<not> sublist (KNOWN_ROAD_TYPES ! j) (normalize_text p)))"
      by (simp only: f(1) find_Some_iff) blast
    have u: "sublist ''urban'' (normalize_text p) \<longrightarrow> urban_rural flt = Some ''urban''"
      "\<not> sublist ''urban'' (normalize_text p) \<and> sublist ''rural'' (normalize_text p)
            \<longrightarrow> urban_rural flt = Some ''rural''"
      "\<not> sublist ''urban'' (normalize_text p) \<and> \<not> sublist ''rural'' (normalize_text p)
            \<longrightarrow> urban_rural flt = None"
      by (simp_all add: f(4))
    from i e n r u show ?thesis
      by blast
  qed
  from ex gen show ?thesis
    by blast
qed


theorem parse_free_text_example_witness:
  "parse_free_text ''Urban or rural highway''
     = Inr \<lparr>road_type = Some ''rural highway'', issues = [], environments = [],
            speed_kmh = None, urban_rural = Some ''urban''\<rparr>
   \<and> sublist ''urban'' (normalize_text ''Urban or rural highway'')
   \<and> sublist ''rural'' (normalize_text ''Urban or rural highway'')
   \<and> urban_rural \<lparr>road_type = Some ''rural highway'', issues = [], environments = [],
                   speed_kmh = None, urban_rural = Some ''urban''\<rparr> = Some ''urban''
   \<and> {kw \<in> set KNOWN_ISSUES. \<exists>u v. normalize_text ''Urban or rural highway'' = u @ kw @ v}
       = {}"
proof -
  note h = parse_urban_rural
  have s1: "sublist ''urban'' (normalize_text ''Urban or rural highway'')"
    by code_simp
  have s2: "sublist ''rural'' (normalize_text ''Urban or rural highway'')"
    by code_simp
  note t = parse_free_text_example [of "''Urban or rural highway''"
      "\<lparr>road_type = Some ''rural highway'', issues = [], environments = [],
            speed_kmh = None, urban_rural = Some ''urban''\<rparr>"]
  from t h have "set (issues \<lparr>road_type = Some ''rural highway'', issues = [],
                     environments = [], speed_kmh = None, urban_rural = Some ''urban''\<rparr>)
      = {kw \<in> set KNOWN_ISSUES. \<exists>u v. normalize_text ''Urban or rural highway'' = u @ kw @ v}"
    by blast
  then have e: "{kw \<in> set KNOWN_ISSUES.
                  \<exists>u v. normalize_text ''Urban or rural highway'' = u @ kw @ v} = {}"
    by simp
  from t h s1 have u: "urban_rural \<lparr>road_type = Some ''rural highway'', issues = [],
      environments = [], speed_kmh = None, urban_rural = Some ''urban''\<rparr> = Some ''urban''"
    by blast
  from h s1 s2 u e show ?thesis
    by blast
qed

lemma decimal_is_digit: "isdecimal_char c \<Longrightarrow> isdigit_char c"
  by (simp add: isdecimal_char_def isdigit_char_def Let_def)

lemma is_decimal_integer_isdigit: "is_decimal_integer t \<Longrightarrow> isdigit t"
  by (auto simp: is_decimal_integer_def isdigit_def list_all_iff decimal_is_digit)

lemma scan_speed_decimal:
  "\<forall>t \<in> set ts. isdigit t \<longrightarrow> is_decimal_integer t \<Longrightarrow>
   scan_speed ts
     = Inr (map_option decimal_value
              (find (\<lambda>t. is_decimal_integer t \<and> 10 \<le> decimal_value t \<and> decimal_value t \<le> 130)
                 ts))"
proof (induction ts)
  case Nil
  then show ?case by simp
next
  case (Cons t ts)
  then have ih: "scan_speed ts
     = Inr (map_option decimal_value
              (find (\<lambda>t. is_decimal_integer t \<and> 10 \<le> decimal_value t \<and> decimal_value t \<le> 130)
                 ts))"
    by simp
  show ?case
  proof (cases "isdigit t")
    case True
    with Cons.prems have d: "is_decimal_integer t" by simp
    then have "int_of_token t = Inr (decimal_value t)"
      by (simp add: int_of_token_def is_decimal_integer_def)
    with True d ih show ?thesis by simp
  next
    case False
    then have "\<not> is_decimal_integer t"
      using is_decimal_integer_isdigit by blast
    with False ih show ?thesis by simp
  qed
qed

lemma parse_speed_when_decimal:
  assumes "\<forall>t \<in> set (split_ws (str_replace ''km/h'' ''kmh'' (normalize_text p))).
             isdigit t \<longrightarrow> is_decimal_integer t"
  shows "\<exists>flt. parse_free_text p = Inr flt \<and> speed_kmh flt = speed_as_claimed p"
  using scan_speed_decimal [OF assms]
  by (simp add: parse_free_text_def Let_def speed_as_claimed_def)

text \<open>
  C5. The claim: for every prompt, the speed is the first token that is a pure base-10
  integer from 10 to 130, and undefined if there is none. On the prompt
  \<open>superscript_prompt\<close> the first token is \<open>10\<close> followed by a superscript two:
  \<open>isdigit\<close> accepts it, \<open>int\<close> raises \<open>ValueError\<close>, and \<open>parse_free_text\<close> returns
  nothing, where the claim gives the speed 40. (\<open>parse_speed_when_decimal\<close> above: on
  prompts in which every token accepted by \<open>isdigit\<close> is made of the digits 0..9, the
  parsed speed is the claimed one.)
\<close>

theorem speed_superscript_digit_raises:
  "parse_free_text superscript_prompt = Inl ValueError
   \<and> speed_as_claimed superscript_prompt = Some 40"
proof -
  have a: "parse_free_text superscript_prompt = Inl ValueError"
    by code_simp
  have b: "speed_as_claimed superscript_prompt = Some 40"
    by code_simp
  from a b show ?thesis
    by blast
qed

section \<open>The endpoint: merge and output\<close>

lemma request_simps [simp]:
  "prompt (request p f k) = p"
  "top_k (request p f k) = k"
  "filters.truncate (request p f k) = f"
  by (simp_all add: request_def filters.extend_def filters.truncate_def
      recommendation_request.fields_def)

lemma merge_parsed_fields:
  "merge_parsed parsed f =
     \<lparr>road_type = (case road_type f of None \<Rightarrow> road_type parsed | Some v \<Rightarrow> Some v),
      issues = (if issues f = [] then issues parsed else issues f),
      environments = (if environments f = [] then environments parsed else environments f),
      speed_kmh = (case speed_kmh f of None \<Rightarrow> speed_kmh parsed | Some v \<Rightarrow> Some v),
      urban_rural = (case urban_rural f of None \<Rightarrow> urban_rural parsed | Some v \<Rightarrow> Some v)\<rparr>"
  by (cases f) (simp add: merge_parsed_def parsed_keys_def merge_step_def split: option.split)

lemma recommend_Some:
  "merged_filters req = Inr f \<Longrightarrow>
   recommend (Some docs) req
     = Inr \<lparr>filters_used = f,
            count_items = length (take (nat (max 1 (min (top_k req) 50)))
                                   (rank_interventions docs f)),
            items = map result_of (take (nat (max 1 (min (top_k req) 50)))
                                     (rank_interventions docs f))\<rparr>"
  by (simp add: recommend_def Let_def)

lemma length_rank_interventions [simp]: "length (rank_interventions docs f) = length docs"
  by (simp add: rank_interventions_def sort_reverse_def)

lemma parse_rural_highway:
  "parse_free_text ''rural highway''
     = Inr \<lparr>road_type = Some ''rural highway'', issues = [], environments = [],
            speed_kmh = None, urban_rural = Some ''rural''\<rparr>"
  by code_simp

text \<open>
  C4, as the code has it. When a non-empty prompt is supplied and the parser returns,
  every field of the filter is merged as follows, and the merged filter is the one the
  response reports: a supplied \<open>road_type\<close>, \<open>speed_kmh\<close> or \<open>urban_rural\<close> is kept whenever
  it is not null (an empty string is kept too) and a null one is replaced by the parsed
  value; a supplied \<open>issues\<close> or \<open>environments\<close> list is kept when it is not empty and an
  empty one is replaced by the parsed list. In the witness the supplied issues are empty,
  the parsed ones are \<open>speeding\<close>, and the merged ones are \<open>speeding\<close>.
\<close>

theorem merge_explicit_over_parsed:
  "prompt req = Some p \<Longrightarrow> p \<noteq> [] \<Longrightarrow> parse_free_text p = Inr parsed \<Longrightarrow>
   merged_filters req
     = Inr \<lparr>road_type = (case road_type req of None \<Rightarrow> road_type parsed | Some v \<Rightarrow> Some v),
            issues = (if issues req = [] then issues parsed else issues req),
            environments = (if environments req = [] then environments parsed
                            else environments req),
            speed_kmh = (case speed_kmh req of None \<Rightarrow> speed_kmh parsed | Some v \<Rightarrow> Some v),
            urban_rural = (case urban_rural req of None \<Rightarrow> urban_rural parsed
                           | Some v \<Rightarrow> Some v)\<rparr>
   \<and> (\<exists>resp. recommend (Some docs) req = Inr resp
         \<and> filters_used resp
             = \<lparr>road_type = (case road_type req of None \<Rightarrow> road_type parsed
                             | Some v \<Rightarrow> Some v),
                issues = (if issues req = [] then issues parsed else issues req),
                environments = (if environments req = [] then environments parsed
                                else environments req),
                speed_kmh = (case speed_kmh req of None \<Rightarrow> speed_kmh parsed
                             | Some v \<Rightarrow> Some v),
                urban_rural = (case urban_rural req of None \<Rightarrow> urban_rural parsed
                               | Some v \<Rightarrow> Some v)\<rparr>)"
proof -
  assume a: "prompt req = Some p" "p \<noteq> []" "parse_free_text p = Inr parsed"
  have m: "merged_filters req
     = Inr \<lparr>road_type = (case road_type req of None \<Rightarrow> road_type parsed | Some v \<Rightarrow> Some v),
            issues = (if issues req = [] then issues parsed else issues req),
            environments = (if environments req = [] then environments parsed
                            else environments req),
            speed_kmh = (case speed_kmh req of None \<Rightarrow> speed_kmh parsed | Some v \<Rightarrow> Some v),
            urban_rural = (case urban_rural req of None \<Rightarrow> urban_rural parsed
                           | Some v \<Rightarrow> Some v)\<rparr>"
    using a by (simp add: merged_filters_def Let_def merge_parsed_fields filters.truncate_def)
  from recommend_Some [OF m, of docs] m show ?thesis
    by simp
qed

theorem merge_explicit_over_parsed_witness:
  "prompt explicit_request = Some example_prompt \<and> example_prompt \<noteq> []
   \<and> parse_free_text example_prompt
       = Inr \<lparr>road_type = None, issues = [''speeding''], environments = [''school zone''],
              speed_kmh = Some 40, urban_rural = Some ''urban''\<rparr>
   \<and> issues explicit_request = []
   \<and> merged_filters explicit_request
       = Inr \<lparr>road_type = Some ''expressway'', issues = [''speeding''],
              environments = [''school zone''], speed_kmh = Some 60,
              urban_rural = Some ''urban''\<rparr>"
proof -
  have p: "prompt explicit_request = Some example_prompt"
    by (simp add: explicit_request_def)
  have n: "example_prompt \<noteq> []"
    by (simp add: example_prompt_def)
  have f: "road_type explicit_request = Some ''expressway''" "issues explicit_request = []"
    "environments explicit_request = []" "speed_kmh explicit_request = Some 60"
    "urban_rural explicit_request = None"
    by (simp_all add: explicit_request_def request_def filters.extend_def)
  from merge_explicit_over_parsed [OF p n parse_example, of "[]"] p n parse_example f
  show ?thesis
    by simp
qed

text \<open>
  C4, as it is stated, says that an empty supplied single-valued field is replaced by
  the parsed value. With the prompt \<open>rural highway\<close> and the supplied road type \<open>""\<close>, the
  code keeps the empty string, where the stated policy gives \<open>rural highway\<close>.
\<close>

theorem merge_empty_string_counterexample:
  "parse_free_text ''rural highway''
     = Inr \<lparr>road_type = Some ''rural highway'', issues = [], environments = [],
            speed_kmh = None, urban_rural = Some ''rural''\<rparr>
   \<and> road_type empty_road_type_request = Some []
   \<and> merged_filters empty_road_type_request
       = Inr \<lparr>road_type = Some [], issues = [], environments = [],
              speed_kmh = None, urban_rural = Some ''rural''\<rparr>
   \<and> merge_as_claimed
         \<lparr>road_type = Some ''rural highway'', issues = [], environments = [],
          speed_kmh = None, urban_rural = Some ''rural''\<rparr>
         (filters.truncate empty_road_type_request)
       = \<lparr>road_type = Some ''rural highway'', issues = [], environments = [],
          speed_kmh = None, urban_rural = Some ''rural''\<rparr>"
proof -
  have r: "road_type empty_road_type_request = Some []"
    by (simp add: empty_road_type_request_def request_def filters.extend_def)
  have m: "merged_filters empty_road_type_request
       = Inr \<lparr>road_type = Some [], issues = [], environments = [],
              speed_kmh = None, urban_rural = Some ''rural''\<rparr>"
    by (simp add: merged_filters_def empty_road_type_request_def parse_rural_highway
        merge_parsed_fields no_filters_def only_issues_def)
  have c: "merge_as_claimed
         \<lparr>road_type = Some ''rural highway'', issues = [], environments = [],
          speed_kmh = None, urban_rural = Some ''rural''\<rparr>
         (filters.truncate empty_road_type_request)
       = \<lparr>road_type = Some ''rural highway'', issues = [], environments = [],
          speed_kmh = None, urban_rural = Some ''rural''\<rparr>"
    by (simp add: merge_as_claimed_def empty_road_type_request_def no_filters_def
        only_issues_def)
  from parse_rural_highway r m c show ?thesis
    by blast
qed

lemma length_ref_notes: "length (res_references (result_of it)) \<le> 3"
  by (simp add: result_of_def Let_def)

text \<open>
  C8. Whatever \<open>top_k\<close> is, a request whose filter could be built is answered, not
  rejected: the response holds the first \<open>max(1, min(top_k, 50))\<close> ranked records, that is
  one record for a zero or negative \<open>top_k\<close> if there is any record, at most 50 for a
  \<open>top_k\<close> above 50, and \<open>top_k\<close> of them in between, as far as there are that many; every
  item has at most 3 references.
\<close>

theorem top_k_clamped:
  "merged_filters req = Inr f \<Longrightarrow>
   (\<exists>resp. recommend (Some docs) req = Inr resp
      \<and> items resp = map result_of (take (nat (max 1 (min (top_k req) 50)))
                                       (rank_interventions docs f))
      \<and> count_items resp = length (items resp)
      \<and> length (items resp) = min (length docs) (nat (max 1 (min (top_k req) 50)))
      \<and> 1 \<le> nat (max 1 (min (top_k req) 50)) \<and> nat (max 1 (min (top_k req) 50)) \<le> 50
      \<and> (top_k req \<le> 0 \<longrightarrow> length (items resp) = min (length docs) 1)
      \<and> (50 < top_k req \<longrightarrow> length (items resp) = min (length docs) 50)
      \<and> (1 \<le> top_k req \<and> top_k req \<le> 50
            \<longrightarrow> length (items resp) = min (length docs) (nat (top_k req)))
      \<and> (\<forall>it \<in> set (items resp). length (res_references it) \<le> 3))"
proof -
  assume m: "merged_filters req = Inr f"
  define n where "n = nat (max 1 (min (top_k req) 50))"
  define resp where "resp = \<lparr>filters_used = f,
            count_items = length (take n (rank_interventions docs f)),
            items = map result_of (take n (rank_interventions docs f))\<rparr>"
  have r: "recommend (Some docs) req = Inr resp"
    using recommend_Some [OF m, of docs] by (simp add: resp_def n_def)
  have i: "items resp = map result_of (take n (rank_interventions docs f))"
    by (simp add: resp_def)
  have c: "count_items resp = length (items resp)"
    by (simp add: resp_def)
  have l: "length (items resp) = min (length docs) n"
    by (simp add: resp_def)
  have b: "1 \<le> n" "n \<le> 50"
    by (simp_all add: n_def)
  have z: "top_k req \<le> 0 \<longrightarrow> n = 1"
    by (simp add: n_def)
  have h: "50 < top_k req \<longrightarrow> n = 50"
    by (simp add: n_def)
  have k: "1 \<le> top_k req \<and> top_k req \<le> 50 \<longrightarrow> n = nat (top_k req)"
    by (simp add: n_def)
  have refs: "\<forall>it \<in> set (items resp). length (res_references it) \<le> 3"
    using length_ref_notes by (auto simp: i)
  from r i c l b z h k refs show ?thesis
    unfolding n_def by metis
qed

theorem top_k_clamped_witness:
  "merged_filters top_zero_request = Inr no_filters \<and> top_k top_zero_request = 0
   \<and> (\<exists>resp. recommend (Some SEED_DATA) top_zero_request = Inr resp
         \<and> length (items resp) = 1)"
proof -
  have m: "merged_filters top_zero_request = Inr no_filters"
    by (simp add: merged_filters_def top_zero_request_def)
  have k: "top_k top_zero_request = 0"
    by (simp add: top_zero_request_def)
  have l: "length SEED_DATA = 3"
    by (simp add: SEED_DATA_def)
  from top_k_clamped [OF m, of SEED_DATA] obtain resp where
    "recommend (Some SEED_DATA) top_zero_request = Inr resp"
    "top_k top_zero_request \<le> 0 \<longrightarrow> length (items resp) = min (length SEED_DATA) 1"
    by blast
  with k l have "recommend (Some SEED_DATA) top_zero_request = Inr resp
      \<and> length (items resp) = 1"
    by simp
  with m k show ?thesis
    by blast
qed

end
